theory Spec2Isabelle
  imports Complex_Main "HOL-Library.Word"
begin

section \<open>Raster data as the raster library hands it over\<close>

text \<open>
  The program reads two GeoTIFF files through GDAL. Of a dataset it uses the raster size,
  the affine geotransform (present when \<open>GetGeoTransform\<close> answers \<open>CE_None\<close>), the number
  of bands, each band's colour interpretation and the bytes one band delivers through
  \<open>RasterIO\<close>. A dataset is modelled by exactly these observations.
  C++ \<open>int\<close> is modelled by \<open>int\<close>, \<open>uint8_t\<close> by \<open>8 word\<close>, \<open>double\<close> by \<open>real\<close>
  (rounding is not modelled: the properties below say which operands are combined and where
  values are stored, not how precise the result is).
\<close>

datatype GDALColorInterp =
    GCI_Undefined | GCI_GrayIndex | GCI_PaletteIndex
  | GCI_RedBand | GCI_GreenBand | GCI_BlueBand | GCI_AlphaBand
  | GCI_HueBand | GCI_SaturationBand | GCI_LightnessBand
  | GCI_CyanBand | GCI_MagentaBand | GCI_YellowBand | GCI_BlackBand
  | GCI_YCbCr_YBand | GCI_YCbCr_CbBand | GCI_YCbCr_CrBand

text \<open>
  \<open>RasterIO_Read\<close> is what \<open>band->RasterIO(GF_Read, 0, 0, width, height, buf, width, height,
  GDT_Byte, 0, 0)\<close> does: \<open>None\<close> when it reports an error, otherwise the bytes it writes to
  the buffer, row after row.
\<close>

record GDALRasterBand =
  ColorInterpretation :: GDALColorInterp
  RasterIO_Read :: "8 word list option"

record GDALDataset =
  RasterXSize :: int
  RasterYSize :: int
  GeoTransform :: "real list option"
  RasterBands :: "GDALRasterBand list"

definition GetRasterCount :: "GDALDataset \<Rightarrow> int" where
  "GetRasterCount ds = int (length (RasterBands ds))"

text \<open>Bands are numbered from 1; the program asks only for bands \<open>1 .. GetRasterCount\<close>.\<close>

definition GetRasterBand :: "GDALDataset \<Rightarrow> int \<Rightarrow> GDALRasterBand" where
  "GetRasterBand ds i = RasterBands ds ! nat (i - 1)"

definition isAlphaBand :: "GDALDataset \<Rightarrow> int \<Rightarrow> bool" where
  "isAlphaBand ds i \<longleftrightarrow> ColorInterpretation (GetRasterBand ds i) = GCI_AlphaBand"

section \<open>The class RasterProcessor\<close>

record RasterProcessor =
  dataset :: GDALDataset
  width :: int
  height :: int
  maskData :: "8 word list"
  geoTransform :: "real list"
  hasGeoTransform :: bool

subsection \<open>findAlphaBand and loadMaskData\<close>

text \<open>
  The loop \<open>for (int i = 1; i <= bandCount; ++i)\<close> of \<open>findAlphaBand\<close>, from index \<open>i\<close> on,
  followed by the two returns after it; \<open>isAlphaBand ds i\<close> is the test
  \<open>colorInterp == GCI_AlphaBand\<close> on band \<open>i\<close>.
\<close>

function findAlphaBand_from :: "GDALDataset \<Rightarrow> int \<Rightarrow> int" where
  "findAlphaBand_from ds i =
     (if i \<le> GetRasterCount ds then
        (if isAlphaBand ds i then i
         else findAlphaBand_from ds (i + 1))
      else if GetRasterCount ds \<ge> 4 then GetRasterCount ds
      else - 1)"
  by pat_completeness auto
termination
  by (relation "measure (\<lambda>(ds, i). nat (GetRasterCount ds + 1 - i))") auto

declare findAlphaBand_from.simps [simp del]

definition findAlphaBand :: "GDALDataset \<Rightarrow> int" where
  "findAlphaBand ds = findAlphaBand_from ds 1"

text \<open>
  What can go wrong beyond a \<open>false\<close> result: \<open>std::length_error\<close>, thrown by
  \<open>maskData.resize\<close> and caught in \<open>main\<close> as a \<open>std::exception\<close>; and a read that writes
  past the end of the vector, after which the behaviour of the program is undefined.
\<close>

datatype fault = LengthError | BufferOverrun

text \<open>
  The product \<open>width * height\<close> of two C++ \<open>int\<close>s, as the 32-bit two's-complement
  machine computes it: outside the range of \<open>int\<close> the result wraps around.
\<close>

definition int32_mul :: "int \<Rightarrow> int \<Rightarrow> int" where
  "int32_mul a b = (a * b + 2 ^ 31) mod 2 ^ 32 - 2 ^ 31"

text \<open>
  \<open>loadMaskData\<close> returns \<open>false\<close> (here \<open>Inr None\<close>) when no band is selected or when the
  read reports an error. In between it resizes the vector to \<open>width * height\<close> bytes:
  a negative product, converted to \<open>size_t\<close>, exceeds \<open>max_size()\<close> and \<open>resize\<close> throws
  \<open>std::length_error\<close> before the band is read; otherwise the vector holds that many zero
  bytes (memory is taken to suffice). The read then writes the bytes the band delivers,
  row after row, from the start of the vector; GDAL delivers \<open>RasterXSize * RasterYSize\<close>
  of them for this request, and when they do not fit the read overruns the vector.
\<close>

definition loadMaskData :: "RasterProcessor \<Rightarrow> fault + RasterProcessor option" where
  "loadMaskData rp =
     (let alphaBand = findAlphaBand (dataset rp) in
      if alphaBand = - 1 then Inr None
      else
        (let size = int32_mul (width rp) (height rp) in
         if size < 0 then Inl LengthError
         else
           (case RasterIO_Read (GetRasterBand (dataset rp) alphaBand) of
              None \<Rightarrow> Inr None
            | Some bytes \<Rightarrow>
                if length bytes \<le> nat size then
                  Inr (Some (rp\<lparr>maskData := bytes @ replicate (nat size - length bytes) 0\<rparr>))
                else Inl BufferOverrun)))"

subsection \<open>loadRaster\<close>

text \<open>
  The fields \<open>loadRaster\<close> sets from an opened dataset before it calls \<open>loadMaskData\<close>.
  When the dataset has no geotransform the six numbers are never read (\<open>hasGeoTransform\<close>
  guards every use); they are stored as GDAL's default.
\<close>

definition openedRaster :: "GDALDataset \<Rightarrow> RasterProcessor" where
  "openedRaster ds =
     \<lparr>dataset = ds,
      width = RasterXSize ds,
      height = RasterYSize ds,
      maskData = [],
      geoTransform = (case GeoTransform ds of Some t \<Rightarrow> t | None \<Rightarrow> [0, 1, 0, 0, 0, 1]),
      hasGeoTransform = (GeoTransform ds \<noteq> None)\<rparr>"

text \<open>
  \<open>GDALOpen\<close> is a parameter: the file system's answer for a file name, \<open>None\<close> for a null
  dataset. \<open>loadRaster\<close> returns \<open>false\<close> (here \<open>Inr None\<close>) for a null dataset and
  otherwise ends as \<open>loadMaskData\<close> does.
\<close>

definition loadRaster ::
    "(string \<Rightarrow> GDALDataset option) \<Rightarrow> string \<Rightarrow> fault + RasterProcessor option" where
  "loadRaster GDALOpen filename =
     (case GDALOpen filename of
        None \<Rightarrow> Inr None
      | Some ds \<Rightarrow> loadMaskData (openedRaster ds))"

text \<open>A load fails when it returns \<open>false\<close> or ends in an exception.\<close>

definition loadFailed :: "fault + RasterProcessor option \<Rightarrow> bool" where
  "loadFailed r \<longleftrightarrow> r = Inr None \<or> r = Inl LengthError"

subsection \<open>isOpaque and pixelToGeo\<close>

text \<open>
  \<open>maskData[y * width + x] == 255\<close>: the byte is promoted to \<open>int\<close> and compared. The
  callers only pass \<open>0 \<le> x < width\<close> and \<open>0 \<le> y < height\<close>; the index is then below
  \<open>width * height\<close>, inside the vector when it holds that many bytes, and the arithmetic
  stays in the range of the C++ \<open>int\<close> in which \<open>width * height\<close> was computed.
\<close>

definition isOpaque :: "RasterProcessor \<Rightarrow> int \<Rightarrow> int \<Rightarrow> bool" where
  "isOpaque rp x y = (uint (maskData rp ! nat (y * width rp + x)) = 255)"

definition pixelToGeo :: "RasterProcessor \<Rightarrow> int \<Rightarrow> int \<Rightarrow> real \<times> real" where
  "pixelToGeo rp x y =
     (if hasGeoTransform rp then
        (geoTransform rp ! 0 + of_int x * geoTransform rp ! 1 + of_int y * geoTransform rp ! 2,
         geoTransform rp ! 3 + of_int x * geoTransform rp ! 4 + of_int y * geoTransform rp ! 5)
      else
        (of_int x, of_int (height rp - y)))"

subsection \<open>The mask scan of getValidGeometry\<close>

text \<open>
  The five locals \<open>foundData, dataMinX, dataMinY, dataMaxX, dataMaxY\<close> of
  \<open>getValidGeometry\<close> are the state of its two nested loops; \<open>markOpaque\<close> is the body of
  \<open>if (isOpaque(x, y))\<close>.
\<close>

record DataBounds =
  foundData :: bool
  dataMinX :: int
  dataMinY :: int
  dataMaxX :: int
  dataMaxY :: int

definition markOpaque :: "DataBounds \<Rightarrow> int \<Rightarrow> int \<Rightarrow> DataBounds" where
  "markOpaque b x y =
     b\<lparr>foundData := True,
       dataMinX := min (dataMinX b) x,
       dataMinY := min (dataMinY b) y,
       dataMaxX := max (dataMaxX b) x,
       dataMaxY := max (dataMaxY b) y\<rparr>"

text \<open>The inner loop \<open>for (int x = 0; x < width; ++x)\<close> in row \<open>y\<close>, from column \<open>x\<close> on.\<close>

function scanColumns :: "RasterProcessor \<Rightarrow> int \<Rightarrow> int \<Rightarrow> DataBounds \<Rightarrow> DataBounds" where
  "scanColumns rp y x b =
     (if x < width rp then
        scanColumns rp y (x + 1) (if isOpaque rp x y then markOpaque b x y else b)
      else b)"
  by pat_completeness auto
termination
  by (relation "measure (\<lambda>(rp, y, x, b). nat (width rp - x))") auto

declare scanColumns.simps [simp del]

text \<open>The outer loop over the rows, from row \<open>y\<close> on.\<close>

function scanRows :: "RasterProcessor \<Rightarrow> int \<Rightarrow> DataBounds \<Rightarrow> DataBounds" where
  "scanRows rp y b =
     (if y < height rp then scanRows rp (y + 1) (scanColumns rp y 0 b) else b)"
  by pat_completeness auto
termination
  by (relation "measure (\<lambda>(rp, y, b). nat (height rp - y))") auto

declare scanRows.simps [simp del]

text \<open>The initial values of the locals and the whole scan.\<close>

definition scanMask :: "RasterProcessor \<Rightarrow> DataBounds" where
  "scanMask rp =
     scanRows rp 0
       \<lparr>foundData = False, dataMinX = width rp, dataMinY = height rp, dataMaxX = 0, dataMaxY = 0\<rparr>"

text \<open>
  The first part of \<open>getValidGeometry\<close>, up to the second \<open>return nullptr\<close>: \<open>None\<close> when the
  mask vector is empty or the scan found no opaque pixel, otherwise the bounds found.
\<close>

definition validBounds :: "RasterProcessor \<Rightarrow> DataBounds option" where
  "validBounds rp =
     (if maskData rp = [] then None
      else (let b = scanMask rp in if \<not> foundData b then None else Some b))"

text \<open>
  The loop invariant of the scan over the set \<open>V\<close> of pixels visited so far: the flag says
  whether an opaque pixel was seen, the bounds enclose every opaque pixel seen, and each
  bound is either its initial value or the coordinate of an opaque pixel seen.
\<close>

definition scan_inv :: "RasterProcessor \<Rightarrow> (int \<times> int) set \<Rightarrow> DataBounds \<Rightarrow> bool" where
  "scan_inv rp V b \<longleftrightarrow>
     (foundData b \<longleftrightarrow> (\<exists>p \<in> V. isOpaque rp (fst p) (snd p))) \<and>
     (\<forall>p \<in> V. isOpaque rp (fst p) (snd p) \<longrightarrow>
        dataMinX b \<le> fst p \<and> fst p \<le> dataMaxX b \<and> dataMinY b \<le> snd p \<and> snd p \<le> dataMaxY b) \<and>
     (dataMinX b = width rp \<or> (\<exists>p \<in> V. isOpaque rp (fst p) (snd p) \<and> fst p = dataMinX b)) \<and>
     (dataMinY b = height rp \<or> (\<exists>p \<in> V. isOpaque rp (fst p) (snd p) \<and> snd p = dataMinY b)) \<and>
     (dataMaxX b = 0 \<or> (\<exists>p \<in> V. isOpaque rp (fst p) (snd p) \<and> fst p = dataMaxX b)) \<and>
     (dataMaxY b = 0 \<or> (\<exists>p \<in> V. isOpaque rp (fst p) (snd p) \<and> snd p = dataMaxY b))"

text \<open>The pixel positions of a raster.\<close>

definition inRaster :: "RasterProcessor \<Rightarrow> int \<Rightarrow> int \<Rightarrow> bool" where
  "inRaster rp x y \<longleftrightarrow> 0 \<le> x \<and> x < width rp \<and> 0 \<le> y \<and> y < height rp"

section \<open>The geometry library\<close>

text \<open>
  GEOS is a collaborator of the program. Its geometry handles are an arbitrary type \<open>'g\<close>
  and the C API functions the program calls are the fields of a record; a null pointer
  result is \<open>None\<close>. A coordinate sequence is the list of its coordinate pairs.
  \<open>GEOSisEmpty\<close> answers 1 (empty), 0 (not empty) or 2 (exception).
\<close>

record 'g GEOS =
  GEOSGeom_createLinearRing :: "(real \<times> real) list \<Rightarrow> 'g option"
  GEOSGeom_createPolygon :: "'g option \<Rightarrow> 'g option"
  GEOSIntersection :: "'g \<Rightarrow> 'g \<Rightarrow> 'g option"
  GEOSisEmpty :: "'g \<Rightarrow> int"
  GEOSEnvelope :: "'g \<Rightarrow> 'g option"
  GEOSGetExteriorRing :: "'g \<Rightarrow> 'g option"
  GEOSGeom_getCoordSeq :: "'g \<Rightarrow> (real \<times> real) list option"

text \<open>
  \<open>GEOSCoordSeq_getX(seq, i, &v)\<close> stores the ordinate in \<open>v\<close>; the program ignores its
  return code. GEOS defines it for \<open>i\<close> below the size of the sequence only; outside, the
  model leaves \<open>v\<close> as it was.
\<close>

definition GEOSCoordSeq_getX :: "(real \<times> real) list \<Rightarrow> nat \<Rightarrow> real \<Rightarrow> real" where
  "GEOSCoordSeq_getX coordSeq i v = (if i < length coordSeq then fst (coordSeq ! i) else v)"

definition GEOSCoordSeq_getY :: "(real \<times> real) list \<Rightarrow> nat \<Rightarrow> real \<Rightarrow> real" where
  "GEOSCoordSeq_getY coordSeq i v = (if i < length coordSeq then snd (coordSeq ! i) else v)"

subsection \<open>The polygon of getValidGeometry\<close>

text \<open>
  The second part of \<open>getValidGeometry\<close>: the two calls of \<open>pixelToGeo\<close> and the five
  coordinate pairs stored in the sequence created by \<open>GEOSCoordSeq_create(5, 2)\<close>.
\<close>

definition extentRing :: "RasterProcessor \<Rightarrow> DataBounds \<Rightarrow> (real \<times> real) list" where
  "extentRing rp b =
     (let (ulx, uly) = pixelToGeo rp (dataMinX b) (dataMinY b);
          (lrx, lry) = pixelToGeo rp (dataMaxX b + 1) (dataMaxY b + 1)
      in [(ulx, uly), (lrx, uly), (lrx, lry), (ulx, lry), (ulx, uly)])"

definition getValidGeometry :: "'g GEOS \<Rightarrow> RasterProcessor \<Rightarrow> 'g option" where
  "getValidGeometry G rp =
     (case validBounds rp of
        None \<Rightarrow> None
      | Some b \<Rightarrow> GEOSGeom_createPolygon G (GEOSGeom_createLinearRing G (extentRing rp b)))"

section \<open>The JSON library\<close>

text \<open>
  The program builds its documents as \<open>nlohmann::json\<close> values and prints them with
  \<open>dump(4)\<close>. Of the value kinds of that library the program uses strings, floating-point
  numbers, arrays and objects. The library's object type is \<open>std::map<std::string, json>\<close>:
  an object holds one value per key and is traversed in ascending key order (the order of
  \<open>std::string\<close>: bytes compared as unsigned values, a proper prefix first), whatever the
  order of insertion. An object is modelled by the list of its members in traversal order.
  The library is third-party code; the model follows its documented behaviour. A \<open>double\<close>
  that is not finite (which the library prints as \<open>null\<close>) has no counterpart in \<open>real\<close>.
\<close>

datatype json =
    JString string
  | JNumber real
  | JArray "json list"
  | JObject "(string \<times> json) list"

fun string_less :: "string \<Rightarrow> string \<Rightarrow> bool" where
  "string_less [] [] = False"
| "string_less [] (d # t) = True"
| "string_less (c # s) [] = False"
| "string_less (c # s) (d # t) =
     ((of_char c :: nat) < of_char d \<or> (c = d \<and> string_less s t))"

text \<open>\<open>std::map::emplace\<close>: a key already present keeps its value.\<close>

fun emplace :: "string \<Rightarrow> json \<Rightarrow> (string \<times> json) list \<Rightarrow> (string \<times> json) list" where
  "emplace k v [] = [(k, v)]"
| "emplace k v ((k', v') # m) =
     (if k = k' then (k', v') # m
      else if string_less k k' then (k, v) # (k', v') # m
      else (k', v') # emplace k v m)"

text \<open>
  The constructor from a braced initializer list: when every element is an array of two
  values whose first is a string, the list is read as an object and its elements are
  emplaced in turn; otherwise it is read as an array.
\<close>

fun is_key_value :: "json \<Rightarrow> bool" where
  "is_key_value (JArray [JString k, v]) = True"
| "is_key_value _ = False"

fun emplace_key_value :: "json \<Rightarrow> (string \<times> json) list \<Rightarrow> (string \<times> json) list" where
  "emplace_key_value (JArray [JString k, v]) m = emplace k v m"
| "emplace_key_value _ m = m"

definition json_init :: "json list \<Rightarrow> json" where
  "json_init init =
     (if list_all is_key_value init then JObject (fold emplace_key_value init [])
      else JArray init)"

text \<open>\<open>json::array()\<close>, the empty array.\<close>

definition json_array :: json where
  "json_array = JArray []"

subsection \<open>dump\<close>

definition hex_digit :: "nat \<Rightarrow> char" where
  "hex_digit n = ''0123456789abcdef'' ! (n mod 16)"

text \<open>
  The escaping of a string's bytes by \<open>dump\<close> (with \<open>ensure_ascii = false\<close>): the quote, the
  backslash and the control characters are escaped, every other byte is copied.
\<close>

definition dump_escaped_char :: "char \<Rightarrow> string" where
  "dump_escaped_char c =
     (let n = (of_char c :: nat) in
      if n = 0x08 then [CHR 0x5C, CHR ''b'']
      else if n = 0x09 then [CHR 0x5C, CHR ''t'']
      else if n = 0x0A then [CHR 0x5C, CHR ''n'']
      else if n = 0x0C then [CHR 0x5C, CHR ''f'']
      else if n = 0x0D then [CHR 0x5C, CHR ''r'']
      else if n = 0x22 then [CHR 0x5C, CHR 0x22]
      else if n = 0x5C then [CHR 0x5C, CHR 0x5C]
      else if n \<le> 0x1F then [CHR 0x5C, CHR ''u'', CHR ''0'', CHR ''0'', hex_digit (n div 16), hex_digit n]
      else [c])"

definition dump_string :: "string \<Rightarrow> string" where
  "dump_string s = [CHR 0x22] @ concat (map dump_escaped_char s) @ [CHR 0x22]"

definition indent_string :: "nat \<Rightarrow> string" where
  "indent_string n = replicate n (CHR '' '')"

text \<open>The elements of a pretty-printed array or object are separated by a comma and a newline.\<close>

fun dump_elements :: "string list \<Rightarrow> string" where
  "dump_elements [] = []"
| "dump_elements [e] = e"
| "dump_elements (e # es) = e @ '','' @ [CHR 0x0A] @ dump_elements es"

text \<open>
  \<open>dump\<close> with a non-negative indent (pretty printing): \<open>step\<close> is the indent of one level,
  \<open>cur\<close> the indent of the value being printed. \<open>fmt\<close> is the library's rendering of a
  finite \<open>double\<close> as a JSON number, the shortest decimal that reads back as the same value;
  it is a parameter.
\<close>

fun dump_pretty :: "(real \<Rightarrow> string) \<Rightarrow> nat \<Rightarrow> nat \<Rightarrow> json \<Rightarrow> string" where
  "dump_pretty fmt step cur (JString s) = dump_string s"
| "dump_pretty fmt step cur (JNumber x) = fmt x"
| "dump_pretty fmt step cur (JArray vs) =
     (if vs = [] then ''[]''
      else ''['' @ [CHR 0x0A]
        @ dump_elements
            (map (\<lambda>v. indent_string (cur + step) @ dump_pretty fmt step (cur + step) v) vs)
        @ [CHR 0x0A] @ indent_string cur @ '']'')"
| "dump_pretty fmt step cur (JObject m) =
     (if m = [] then ''{}''
      else ''{'' @ [CHR 0x0A]
        @ dump_elements
            (map (\<lambda>kv. indent_string (cur + step) @ dump_string (fst kv) @ '': ''
                    @ dump_pretty fmt step (cur + step) (snd kv)) m)
        @ [CHR 0x0A] @ indent_string cur @ ''}'')"

definition dump :: "(real \<Rightarrow> string) \<Rightarrow> nat \<Rightarrow> json \<Rightarrow> string" where
  "dump fmt indent j = dump_pretty fmt indent 0 j"

text \<open>The members of an object in traversal order, and the value of a member.\<close>

fun json_keys :: "json \<Rightarrow> string list" where
  "json_keys (JObject m) = map fst m"
| "json_keys _ = []"

fun json_member :: "json \<Rightarrow> string \<Rightarrow> json option" where
  "json_member (JObject m) k = map_of m k"
| "json_member _ k = None"

text \<open>A text given line by line.\<close>

fun join_lines :: "string list \<Rightarrow> string" where
  "join_lines [] = []"
| "join_lines [l] = l"
| "join_lines (l # ls) = l @ [CHR 0x0A] @ join_lines ls"

section \<open>geometryToGeoJSON\<close>

text \<open>
  The bounding box read from the envelope of the geometry: the initial values
  \<open>0, 0, 100, 100\<close> of the four locals are overwritten only when the envelope, its exterior
  ring and the ring's coordinate sequence are all obtained; then point 0 of the sequence
  gives \<open>(minX, minY)\<close> and point 2 gives \<open>(maxX, maxY)\<close>. (\<open>GEOSCoordSeq_getSize\<close> succeeds
  on every sequence.)
\<close>

definition envelopeBounds :: "'g GEOS \<Rightarrow> 'g \<Rightarrow> real \<times> real \<times> real \<times> real" where
  "envelopeBounds G geometry =
     (case GEOSEnvelope G geometry of
        None \<Rightarrow> (0, 0, 100, 100)
      | Some envelope \<Rightarrow>
          (case GEOSGetExteriorRing G envelope of
             None \<Rightarrow> (0, 0, 100, 100)
           | Some ring \<Rightarrow>
               (case GEOSGeom_getCoordSeq G ring of
                  None \<Rightarrow> (0, 0, 100, 100)
                | Some coordSeq \<Rightarrow>
                    (GEOSCoordSeq_getX coordSeq 0 0,
                     GEOSCoordSeq_getY coordSeq 0 0,
                     GEOSCoordSeq_getX coordSeq 2 100,
                     GEOSCoordSeq_getY coordSeq 2 100))))"

text \<open>The value \<open>geojson\<close>, written with the braces of the source.\<close>

definition featureCollection :: "real \<Rightarrow> real \<Rightarrow> real \<Rightarrow> real \<Rightarrow> json" where
  "featureCollection minX minY maxX maxY =
     json_init [
       json_init [JString ''type'', JString ''FeatureCollection''],
       json_init [JString ''features'', json_init [
         json_init [
           json_init [JString ''type'', JString ''Feature''],
           json_init [JString ''properties'', json_init [
             json_init [JString ''name'', JString ''Intersection Area'']
           ]],
           json_init [JString ''geometry'', json_init [
             json_init [JString ''type'', JString ''Polygon''],
             json_init [JString ''coordinates'', json_init [json_init [
               json_init [JNumber minX, JNumber minY],
               json_init [JNumber maxX, JNumber minY],
               json_init [JNumber maxX, JNumber maxY],
               json_init [JNumber minX, JNumber maxY],
               json_init [JNumber minX, JNumber minY]
             ]]]
           ]]
         ]
       ]]
     ]"

text \<open>The raw string literal returned for a null geometry.\<close>

definition emptyCollectionLiteral :: string where
  \<open>emptyCollectionLiteral = ''{"type": "FeatureCollection", "features": []}''\<close>

definition geometryToGeoJSON :: "(real \<Rightarrow> string) \<Rightarrow> 'g GEOS \<Rightarrow> 'g option \<Rightarrow> string" where
  "geometryToGeoJSON fmt G geometry =
     (case geometry of
        None \<Rightarrow> emptyCollectionLiteral
      | Some g \<Rightarrow>
          (let (minX, minY, maxX, maxY) = envelopeBounds G g
           in dump fmt 4 (featureCollection minX minY maxX maxY)))"

section \<open>main\<close>

text \<open>
  A run is a function of what the outside world answers: the datasets behind the two file
  names, the geometry library and the number rendering of the JSON library. Its result is
  the exit status and the text written to \<open>intersection_obchaja_2.geojson\<close>, if the file is
  written at all. The model is the build with \<open>HAS_GEOS\<close> defined. Console output and
  \<open>printDetailedInfo\<close> (which only prints) are left out, and so are the releases of
  geometry handles.
\<close>

record RunResult =
  exitStatus :: int
  outputFile :: "string option"

text \<open>The value \<open>emptyGeojson\<close> of the branch for a null or empty intersection.\<close>

definition emptyGeojson :: json where
  "emptyGeojson =
     json_init [
       json_init [JString ''type'', JString ''FeatureCollection''],
       json_init [JString ''features'', json_array]
     ]"

text \<open>
  The block under \<open>try\<close>: it ends with a \<open>return\<close> (or by reaching its end, after which
  \<open>main\<close> returns 0), here \<open>Inr\<close>, or with a fault of one of the two loads, here \<open>Inl\<close>.
\<close>

definition main_try ::
    "(real \<Rightarrow> string) \<Rightarrow> 'g GEOS \<Rightarrow> (string \<Rightarrow> GDALDataset option) \<Rightarrow> fault + RunResult" where
  "main_try fmt G GDALOpen =
     (case loadRaster GDALOpen ''orto1.tif'' of
        Inl e \<Rightarrow> Inl e
      | Inr None \<Rightarrow> Inr \<lparr>exitStatus = 1, outputFile = None\<rparr>
      | Inr (Some processor1) \<Rightarrow>
          (case loadRaster GDALOpen ''orto2.tif'' of
             Inl e \<Rightarrow> Inl e
           | Inr None \<Rightarrow> Inr \<lparr>exitStatus = 1, outputFile = None\<rparr>
           | Inr (Some processor2) \<Rightarrow>
               (case (getValidGeometry G processor1, getValidGeometry G processor2) of
                  (Some geometry1, Some geometry2) \<Rightarrow>
                    (case GEOSIntersection G geometry1 geometry2 of
                       Some intersection \<Rightarrow>
                         (if GEOSisEmpty G intersection = 0 then
                            Inr \<lparr>exitStatus = 0,
                                 outputFile = Some (geometryToGeoJSON fmt G (Some intersection))\<rparr>
                          else
                            Inr \<lparr>exitStatus = 0, outputFile = Some (dump fmt 4 emptyGeojson)\<rparr>)
                     | None \<Rightarrow>
                         Inr \<lparr>exitStatus = 0, outputFile = Some (dump fmt 4 emptyGeojson)\<rparr>)
                | _ \<Rightarrow> Inr \<lparr>exitStatus = 0, outputFile = None\<rparr>)))"

text \<open>
  \<open>main\<close>: the \<open>catch (const exception&)\<close> branch returns 1; an exception can only come
  from a load, so nothing has been written then. After an overrun the run has no defined
  result.
\<close>

definition main ::
    "(real \<Rightarrow> string) \<Rightarrow> 'g GEOS \<Rightarrow> (string \<Rightarrow> GDALDataset option) \<Rightarrow> fault + RunResult" where
  "main fmt G GDALOpen =
     (case main_try fmt G GDALOpen of
        Inl LengthError \<Rightarrow> Inr \<lparr>exitStatus = 1, outputFile = None\<rparr>
      | Inl BufferOverrun \<Rightarrow> Inl BufferOverrun
      | Inr r \<Rightarrow> Inr r)"

section \<open>Concrete inputs\<close>

text \<open>
  Small rasters and stand-ins for the two libraries, on which the program is run below.
  The usual raster is 2 by 2 pixels with four bands, the last one the alpha band.
\<close>

definition sample_band :: "GDALColorInterp \<Rightarrow> 8 word list \<Rightarrow> GDALRasterBand" where
  "sample_band c bytes = \<lparr>ColorInterpretation = c, RasterIO_Read = Some bytes\<rparr>"

definition sample_dataset :: "real list \<Rightarrow> 8 word list \<Rightarrow> GDALDataset" where
  "sample_dataset t alpha =
     \<lparr>RasterXSize = 2, RasterYSize = 2, GeoTransform = Some t,
      RasterBands =
        [sample_band GCI_RedBand [10, 20, 30, 40],
         sample_band GCI_GreenBand [10, 20, 30, 40],
         sample_band GCI_BlueBand [10, 20, 30, 40],
         sample_band GCI_AlphaBand alpha]\<rparr>"

text \<open>Fully opaque rasters at the origin, one pixel up and right, touching at a corner, far away.\<close>

definition raster_origin :: GDALDataset where
  "raster_origin = sample_dataset [0, 1, 0, 0, 0, 1] [255, 255, 255, 255]"

definition raster_shifted :: GDALDataset where
  "raster_shifted = sample_dataset [1, 1, 0, 1, 0, 1] [255, 255, 255, 255]"

definition raster_corner :: GDALDataset where
  "raster_corner = sample_dataset [2, 1, 0, 2, 0, 1] [255, 255, 255, 255]"

definition raster_far :: GDALDataset where
  "raster_far = sample_dataset [5, 1, 0, 5, 0, 1] [255, 255, 255, 255]"

text \<open>
  A raster without any opaque pixel, one with three colour bands only, one with four
  bands none of which is an alpha band, and one whose alpha band cannot be read.
\<close>

definition raster_blank :: GDALDataset where
  "raster_blank = sample_dataset [0, 1, 0, 0, 0, 1] [0, 0, 254, 0]"

definition raster_rgb :: GDALDataset where
  "raster_rgb =
     \<lparr>RasterXSize = 2, RasterYSize = 2, GeoTransform = Some [0, 1, 0, 0, 0, 1],
      RasterBands =
        [sample_band GCI_RedBand [10, 20, 30, 40],
         sample_band GCI_GreenBand [10, 20, 30, 40],
         sample_band GCI_BlueBand [10, 20, 30, 40]]\<rparr>"

definition raster_cmyk :: GDALDataset where
  "raster_cmyk =
     \<lparr>RasterXSize = 2, RasterYSize = 2, GeoTransform = Some [0, 1, 0, 0, 0, 1],
      RasterBands =
        [sample_band GCI_CyanBand [10, 20, 30, 40],
         sample_band GCI_MagentaBand [10, 20, 30, 40],
         sample_band GCI_YellowBand [10, 20, 30, 40],
         sample_band GCI_BlackBand [255, 0, 0, 255]]\<rparr>"

text \<open>
  A raster of 50000 by 50000 fully opaque pixels whose only band is an alpha band: the
  \<open>int\<close> product \<open>width * height\<close> is negative.
\<close>

definition huge_bytes :: "8 word list" where
  "huge_bytes = replicate 2500000000 255"

definition raster_huge :: GDALDataset where
  "raster_huge =
     \<lparr>RasterXSize = 50000, RasterYSize = 50000, GeoTransform = Some [0, 1, 0, 0, 0, 1],
      RasterBands = [\<lparr>ColorInterpretation = GCI_AlphaBand, RasterIO_Read = Some huge_bytes\<rparr>]\<rparr>"

definition raster_unreadable :: GDALDataset where
  "raster_unreadable =
     \<lparr>RasterXSize = 2, RasterYSize = 2, GeoTransform = Some [0, 1, 0, 0, 0, 1],
      RasterBands = [\<lparr>ColorInterpretation = GCI_AlphaBand, RasterIO_Read = None\<rparr>]\<rparr>"

text \<open>The processors that \<open>loadRaster\<close> yields for five of them.\<close>

definition processor_origin :: RasterProcessor where
  "processor_origin = (openedRaster raster_origin)\<lparr>maskData := [255, 255, 255, 255]\<rparr>"

definition processor_shifted :: RasterProcessor where
  "processor_shifted = (openedRaster raster_shifted)\<lparr>maskData := [255, 255, 255, 255]\<rparr>"

definition processor_corner :: RasterProcessor where
  "processor_corner = (openedRaster raster_corner)\<lparr>maskData := [255, 255, 255, 255]\<rparr>"

definition processor_far :: RasterProcessor where
  "processor_far = (openedRaster raster_far)\<lparr>maskData := [255, 255, 255, 255]\<rparr>"

definition processor_blank :: RasterProcessor where
  "processor_blank = (openedRaster raster_blank)\<lparr>maskData := [0, 0, 254, 0]\<rparr>"

text \<open>
  A raster of 3 by 2 pixels without geotransform, its only band an alpha band with two
  opaque pixels, and the processor that \<open>loadRaster\<close> yields for it.
\<close>

definition raster_partial :: GDALDataset where
  "raster_partial =
     \<lparr>RasterXSize = 3, RasterYSize = 2, GeoTransform = None,
      RasterBands = [sample_band GCI_AlphaBand [0, 255, 0,
                                                7, 0, 255]]\<rparr>"

definition sample_mask_raster :: RasterProcessor where
  "sample_mask_raster = (openedRaster raster_partial)\<lparr>maskData := [0, 255, 0, 7, 0, 255]\<rparr>"

text \<open>The file system: the two input files, either of which may be missing.\<close>

definition sample_files :: "GDALDataset option \<Rightarrow> GDALDataset option \<Rightarrow> string \<Rightarrow> GDALDataset option" where
  "sample_files a b filename =
     (if filename = ''orto1.tif'' then a else if filename = ''orto2.tif'' then b else None)"

subsection \<open>A geometry library for axis-parallel rectangles\<close>

text \<open>
  A stand-in that answers as GEOS does on the geometries of the runs below: a polygon is
  the coordinate list of its shell; two rectangles intersect in a rectangle, in a segment,
  in a point or in the empty geometry; the envelope of a point is that point, which has no
  exterior ring.
\<close>

datatype sample_geometry =
    SamplePoint "real \<times> real"
  | SampleLineString "(real \<times> real) list"
  | SampleLinearRing "(real \<times> real) list"
  | SamplePolygon "(real \<times> real) list"
  | SampleEmpty

fun sample_box :: "(real \<times> real) list \<Rightarrow> real \<times> real \<times> real \<times> real" where
  "sample_box [] = (0, 0, 0, 0)"
| "sample_box ((x, y) # cs) =
     (fold min (map fst cs) x, fold min (map snd cs) y,
      fold max (map fst cs) x, fold max (map snd cs) y)"

definition sample_rectangle :: "real \<times> real \<times> real \<times> real \<Rightarrow> sample_geometry" where
  "sample_rectangle box =
     (case box of (x0, y0, x1, y1) \<Rightarrow>
        if x1 < x0 \<or> y1 < y0 then SampleEmpty
        else if x0 = x1 \<and> y0 = y1 then SamplePoint (x0, y0)
        else if x0 = x1 \<or> y0 = y1 then SampleLineString [(x0, y0), (x1, y1)]
        else SamplePolygon [(x0, y0), (x1, y0), (x1, y1), (x0, y1), (x0, y0)])"

fun sample_createLinearRing :: "(real \<times> real) list \<Rightarrow> sample_geometry option" where
  "sample_createLinearRing cs =
     (if 4 \<le> length cs \<and> hd cs = last cs then Some (SampleLinearRing cs) else None)"

fun sample_createPolygon :: "sample_geometry option \<Rightarrow> sample_geometry option" where
  "sample_createPolygon (Some (SampleLinearRing cs)) = Some (SamplePolygon cs)"
| "sample_createPolygon _ = None"

fun sample_intersection :: "sample_geometry \<Rightarrow> sample_geometry \<Rightarrow> sample_geometry option" where
  "sample_intersection (SamplePolygon p) (SamplePolygon q) =
     (case (sample_box p, sample_box q) of
        ((px0, py0, px1, py1), (qx0, qy0, qx1, qy1)) \<Rightarrow>
          Some (sample_rectangle (max px0 qx0, max py0 qy0, min px1 qx1, min py1 qy1)))"
| "sample_intersection _ _ = None"

fun sample_isEmpty :: "sample_geometry \<Rightarrow> int" where
  "sample_isEmpty SampleEmpty = 1"
| "sample_isEmpty _ = 0"

fun sample_envelope :: "sample_geometry \<Rightarrow> sample_geometry option" where
  "sample_envelope (SamplePoint p) = Some (SamplePoint p)"
| "sample_envelope (SamplePolygon cs) =
     (case sample_box cs of (x0, y0, x1, y1) \<Rightarrow>
        if x0 = x1 \<and> y0 = y1 then Some (SamplePoint (x0, y0))
        else Some (SamplePolygon [(x0, y0), (x1, y0), (x1, y1), (x0, y1), (x0, y0)]))"
| "sample_envelope (SampleLineString cs) =
     (case sample_box cs of (x0, y0, x1, y1) \<Rightarrow>
        if x0 = x1 \<and> y0 = y1 then Some (SamplePoint (x0, y0))
        else Some (SamplePolygon [(x0, y0), (x1, y0), (x1, y1), (x0, y1), (x0, y0)]))"
| "sample_envelope (SampleLinearRing cs) =
     (case sample_box cs of (x0, y0, x1, y1) \<Rightarrow>
        if x0 = x1 \<and> y0 = y1 then Some (SamplePoint (x0, y0))
        else Some (SamplePolygon [(x0, y0), (x1, y0), (x1, y1), (x0, y1), (x0, y0)]))"
| "sample_envelope SampleEmpty = Some SampleEmpty"

fun sample_exteriorRing :: "sample_geometry \<Rightarrow> sample_geometry option" where
  "sample_exteriorRing (SamplePolygon cs) = Some (SampleLinearRing cs)"
| "sample_exteriorRing _ = None"

fun sample_coordSeq :: "sample_geometry \<Rightarrow> (real \<times> real) list option" where
  "sample_coordSeq (SamplePoint p) = Some [p]"
| "sample_coordSeq (SampleLineString cs) = Some cs"
| "sample_coordSeq (SampleLinearRing cs) = Some cs"
| "sample_coordSeq _ = None"

definition sample_GEOS :: "sample_geometry GEOS" where
  "sample_GEOS =
     \<lparr>GEOSGeom_createLinearRing = sample_createLinearRing,
      GEOSGeom_createPolygon = sample_createPolygon,
      GEOSIntersection = sample_intersection,
      GEOSisEmpty = sample_isEmpty,
      GEOSEnvelope = sample_envelope,
      GEOSGetExteriorRing = sample_exteriorRing,
      GEOSGeom_getCoordSeq = sample_coordSeq\<rparr>"

subsection \<open>A number rendering\<close>

text \<open>
  A stand-in for the JSON library's rendering of a \<open>double\<close>, right on whole numbers, which
  that library prints with one decimal: \<open>5.0\<close>, \<open>100.0\<close>, \<open>-3.0\<close>.
\<close>

function decimal :: "nat \<Rightarrow> string" where
  "decimal n =
     (if n < 10 then [''0123456789'' ! n]
      else decimal (n div 10) @ [''0123456789'' ! (n mod 10)])"
  by pat_completeness auto
termination
  by (relation "measure id") auto

declare decimal.simps [simp del]

definition sample_fmt :: "real \<Rightarrow> string" where
  "sample_fmt x = (if x < 0 then ''-'' else []) @ decimal (nat \<lfloor>\<bar>x\<bar>\<rfloor>) @ ''.0''"

text \<open>Removal of the JSON whitespace characters (space, tab, line feed, carriage return).\<close>

definition strip_whitespace :: "string \<Rightarrow> string" where
  "strip_whitespace s = filter (\<lambda>c. c \<notin> {CHR '' '', CHR 0x09, CHR 0x0A, CHR 0x0D}) s"

section \<open>Properties\<close>

subsection \<open>Facts about the concrete inputs\<close>

lemma sample_isAlphaBand:
  "\<not> isAlphaBand raster_origin 1" "\<not> isAlphaBand raster_origin 2" "\<not> isAlphaBand raster_origin 3"
  "isAlphaBand raster_origin 4"
  "\<not> isAlphaBand raster_cmyk 1" "\<not> isAlphaBand raster_cmyk 2" "\<not> isAlphaBand raster_cmyk 3"
  "\<not> isAlphaBand raster_cmyk 4"
  "\<not> isAlphaBand raster_rgb 1" "\<not> isAlphaBand raster_rgb 2" "\<not> isAlphaBand raster_rgb 3"
  "isAlphaBand raster_unreadable 1"
  "isAlphaBand raster_huge 1"
  by (simp_all add: isAlphaBand_def GetRasterBand_def raster_origin_def raster_cmyk_def
      raster_rgb_def raster_unreadable_def raster_huge_def sample_dataset_def sample_band_def)

lemma sample_GetRasterCount:
  "GetRasterCount raster_origin = 4" "GetRasterCount raster_cmyk = 4"
  "GetRasterCount raster_rgb = 3" "GetRasterCount raster_unreadable = 1"
  "GetRasterCount raster_huge = 1"
  by (simp_all add: GetRasterCount_def raster_origin_def raster_cmyk_def
      raster_rgb_def raster_unreadable_def raster_huge_def sample_dataset_def)

lemma loadRaster_opened:
  "GDALOpen filename = Some ds \<Longrightarrow> loadRaster GDALOpen filename = loadMaskData (openedRaster ds)"
  by (simp add: loadRaster_def)

lemma dataset_openedRaster [simp]: "dataset (openedRaster ds) = ds"
  by (simp add: openedRaster_def)

lemma sample_files_simps [simp]:
  "sample_files a b ''orto1.tif'' = a" "sample_files a b ''orto2.tif'' = b"
  by (simp_all add: sample_files_def)


subsection \<open>The mask scan\<close>

lemma scan_inv_init:
  "scan_inv rp {} \<lparr>foundData = False, dataMinX = width rp, dataMinY = height rp, dataMaxX = 0, dataMaxY = 0\<rparr>"
  by (simp add: scan_inv_def)

lemma scan_inv_skip:
  assumes "scan_inv rp V b" and "\<not> isOpaque rp x y"
  shows "scan_inv rp (insert (x, y) V) b"
  using assms unfolding scan_inv_def by auto

lemma markOpaque_sel [simp]:
  "foundData (markOpaque b x y) = True"
  "dataMinX (markOpaque b x y) = min (dataMinX b) x"
  "dataMinY (markOpaque b x y) = min (dataMinY b) y"
  "dataMaxX (markOpaque b x y) = max (dataMaxX b) x"
  "dataMaxY (markOpaque b x y) = max (dataMaxY b) y"
  by (simp_all add: markOpaque_def)

lemma tight_min_step:
  fixes m v :: int
  assumes "m = w \<or> (\<exists>p \<in> V. P p \<and> f p = m)" and "P q" and "f q = v"
  shows "min m v = w \<or> (\<exists>p \<in> insert q V. P p \<and> f p = min m v)"
proof (cases "m \<le> v")
  case True
  then have "min m v = m" by simp
  with assms(1) show ?thesis by auto
next
  case False
  then have "min m v = v" by simp
  with assms(2,3) show ?thesis by auto
qed

lemma tight_max_step:
  fixes m v :: int
  assumes "m = w \<or> (\<exists>p \<in> V. P p \<and> f p = m)" and "P q" and "f q = v"
  shows "max m v = w \<or> (\<exists>p \<in> insert q V. P p \<and> f p = max m v)"
proof (cases "v \<le> m")
  case True
  then have "max m v = m" by simp
  with assms(1) show ?thesis by auto
next
  case False
  then have "max m v = v" by simp
  with assms(2,3) show ?thesis by auto
qed

lemma scan_inv_mark:
  assumes inv: "scan_inv rp V b" and op: "isOpaque rp x y"
  shows "scan_inv rp (insert (x, y) V) (markOpaque b x y)"
proof -
  let ?P = "\<lambda>p. isOpaque rp (fst p) (snd p)"
  have P: "?P (x, y)" using op by simp
  from inv have box: "\<forall>p \<in> V. ?P p \<longrightarrow>
        dataMinX b \<le> fst p \<and> fst p \<le> dataMaxX b \<and> dataMinY b \<le> snd p \<and> snd p \<le> dataMaxY b"
    and t1: "dataMinX b = width rp \<or> (\<exists>p \<in> V. ?P p \<and> fst p = dataMinX b)"
    and t2: "dataMinY b = height rp \<or> (\<exists>p \<in> V. ?P p \<and> snd p = dataMinY b)"
    and t3: "dataMaxX b = 0 \<or> (\<exists>p \<in> V. ?P p \<and> fst p = dataMaxX b)"
    and t4: "dataMaxY b = 0 \<or> (\<exists>p \<in> V. ?P p \<and> snd p = dataMaxY b)"
    unfolding scan_inv_def by blast+
  have c1: "foundData (markOpaque b x y) \<longleftrightarrow> (\<exists>p \<in> insert (x, y) V. ?P p)"
    using P by auto
  have c2: "\<forall>p \<in> insert (x, y) V. ?P p \<longrightarrow>
        dataMinX (markOpaque b x y) \<le> fst p \<and> fst p \<le> dataMaxX (markOpaque b x y) \<and>
        dataMinY (markOpaque b x y) \<le> snd p \<and> snd p \<le> dataMaxY (markOpaque b x y)"
  proof
    fix p assume "p \<in> insert (x, y) V"
    then consider "p = (x, y)" | "p \<in> V" by auto
    then show "?P p \<longrightarrow>
        dataMinX (markOpaque b x y) \<le> fst p \<and> fst p \<le> dataMaxX (markOpaque b x y) \<and>
        dataMinY (markOpaque b x y) \<le> snd p \<and> snd p \<le> dataMaxY (markOpaque b x y)"
    proof cases
      case 1
      then show ?thesis by simp
    next
      case 2
      show ?thesis
      proof
        assume "?P p"
        with box 2 have "dataMinX b \<le> fst p \<and> fst p \<le> dataMaxX b \<and> dataMinY b \<le> snd p \<and> snd p \<le> dataMaxY b"
          by blast
        then show "dataMinX (markOpaque b x y) \<le> fst p \<and> fst p \<le> dataMaxX (markOpaque b x y) \<and>
            dataMinY (markOpaque b x y) \<le> snd p \<and> snd p \<le> dataMaxY (markOpaque b x y)"
          by (simp add: min.coboundedI1 max.coboundedI1)
      qed
    qed
  qed
  have c3: "dataMinX (markOpaque b x y) = width rp \<or>
      (\<exists>p \<in> insert (x, y) V. ?P p \<and> fst p = dataMinX (markOpaque b x y))"
    using tight_min_step [OF t1 P, of x] by simp
  have c4: "dataMinY (markOpaque b x y) = height rp \<or>
      (\<exists>p \<in> insert (x, y) V. ?P p \<and> snd p = dataMinY (markOpaque b x y))"
    using tight_min_step [OF t2 P, of y] by simp
  have c5: "dataMaxX (markOpaque b x y) = 0 \<or>
      (\<exists>p \<in> insert (x, y) V. ?P p \<and> fst p = dataMaxX (markOpaque b x y))"
    using tight_max_step [OF t3 P, of x] by simp
  have c6: "dataMaxY (markOpaque b x y) = 0 \<or>
      (\<exists>p \<in> insert (x, y) V. ?P p \<and> snd p = dataMaxY (markOpaque b x y))"
    using tight_max_step [OF t4 P, of y] by simp
  show ?thesis
    unfolding scan_inv_def using c1 c2 c3 c4 c5 c6 by blast
qed

lemma scan_inv_step:
  assumes "scan_inv rp V b"
  shows "scan_inv rp (insert (x, y) V) (if isOpaque rp x y then markOpaque b x y else b)"
  using assms by (simp add: scan_inv_mark scan_inv_skip)

lemma scanColumns_inv:
  "scan_inv rp V b \<Longrightarrow> scan_inv rp (V \<union> {x..<width rp} \<times> {y}) (scanColumns rp y x b)"
proof (induction rp y x b arbitrary: V rule: scanColumns.induct)
  case (1 rp y x b)
  show ?case
  proof (cases "x < width rp")
    case True
    have split: "{x..<width rp} = insert x {x + 1..<width rp}"
      using True by auto
    have "scan_inv rp (insert (x, y) V \<union> {x + 1..<width rp} \<times> {y})
            (scanColumns rp y (x + 1) (if isOpaque rp x y then markOpaque b x y else b))"
      using "1.IH" [OF True scan_inv_step [OF "1.prems"]] .
    moreover have "insert (x, y) V \<union> {x + 1..<width rp} \<times> {y} = V \<union> {x..<width rp} \<times> {y}"
      unfolding split by auto
    ultimately show ?thesis
      using True by (simp add: scanColumns.simps [of rp y x b])
  next
    case False
    then have "{x..<width rp} = {}" by simp
    with False "1.prems" show ?thesis
      by (simp add: scanColumns.simps [of rp y x b])
  qed
qed

lemma scanRows_inv:
  "scan_inv rp V b \<Longrightarrow> scan_inv rp (V \<union> {0..<width rp} \<times> {y..<height rp}) (scanRows rp y b)"
proof (induction rp y b arbitrary: V rule: scanRows.induct)
  case (1 rp y b)
  show ?case
  proof (cases "y < height rp")
    case True
    have split: "{y..<height rp} = insert y {y + 1..<height rp}"
      using True by auto
    have "scan_inv rp ((V \<union> {0..<width rp} \<times> {y}) \<union> {0..<width rp} \<times> {y + 1..<height rp})
            (scanRows rp (y + 1) (scanColumns rp y 0 b))"
      using "1.IH" [OF True scanColumns_inv [OF "1.prems"]] .
    moreover have "(V \<union> {0..<width rp} \<times> {y}) \<union> {0..<width rp} \<times> {y + 1..<height rp}
        = V \<union> {0..<width rp} \<times> {y..<height rp}"
      unfolding split by auto
    ultimately show ?thesis
      using True by (simp add: scanRows.simps [of rp y b])
  next
    case False
    then have "{y..<height rp} = {}" by simp
    with False "1.prems" show ?thesis
      by (simp add: scanRows.simps [of rp y b])
  qed
qed

lemma scanMask_inv:
  "scan_inv rp ({0..<width rp} \<times> {0..<height rp}) (scanMask rp)"
  using scanRows_inv [OF scan_inv_init, of rp 0] by (simp add: scanMask_def)



lemma empty_mask_no_pixel:
  assumes len: "length (maskData rp) = nat (width rp * height rp)" and e: "maskData rp = []"
  shows "\<not> inRaster rp x y"
proof
  assume "inRaster rp x y"
  then have "0 < width rp" "0 < height rp" by (auto simp: inRaster_def)
  then have "0 < width rp * height rp" by simp
  with len e show False by simp
qed

lemma scanMask_found_iff:
  "foundData (scanMask rp) \<longleftrightarrow> (\<exists>x y. inRaster rp x y \<and> isOpaque rp x y)"
proof -
  have "foundData (scanMask rp) \<longleftrightarrow>
      (\<exists>p \<in> {0..<width rp} \<times> {0..<height rp}. isOpaque rp (fst p) (snd p))"
    using scanMask_inv [of rp] unfolding scan_inv_def by blast
  also have "\<dots> \<longleftrightarrow> (\<exists>x y. inRaster rp x y \<and> isOpaque rp x y)"
    by (force simp: inRaster_def)
  finally show ?thesis .
qed

lemma scanMask_encloses:
  assumes "inRaster rp x y" and "isOpaque rp x y"
  shows "dataMinX (scanMask rp) \<le> x \<and> x \<le> dataMaxX (scanMask rp) \<and>
         dataMinY (scanMask rp) \<le> y \<and> y \<le> dataMaxY (scanMask rp)"
proof -
  have mem: "(x, y) \<in> {0..<width rp} \<times> {0..<height rp}"
    using assms(1) by (simp add: inRaster_def)
  have "\<forall>p \<in> {0..<width rp} \<times> {0..<height rp}. isOpaque rp (fst p) (snd p) \<longrightarrow>
        dataMinX (scanMask rp) \<le> fst p \<and> fst p \<le> dataMaxX (scanMask rp) \<and>
        dataMinY (scanMask rp) \<le> snd p \<and> snd p \<le> dataMaxY (scanMask rp)"
    using scanMask_inv [of rp] unfolding scan_inv_def by blast
  from bspec [OF this mem] assms(2) show ?thesis by simp
qed

lemma scanMask_edges:
  assumes "inRaster rp x0 y0" and "isOpaque rp x0 y0"
  shows "(\<exists>y. inRaster rp (dataMinX (scanMask rp)) y \<and> isOpaque rp (dataMinX (scanMask rp)) y)"
    and "(\<exists>y. inRaster rp (dataMaxX (scanMask rp)) y \<and> isOpaque rp (dataMaxX (scanMask rp)) y)"
    and "(\<exists>x. inRaster rp x (dataMinY (scanMask rp)) \<and> isOpaque rp x (dataMinY (scanMask rp)))"
    and "(\<exists>x. inRaster rp x (dataMaxY (scanMask rp)) \<and> isOpaque rp x (dataMaxY (scanMask rp)))"
proof -
  let ?b = "scanMask rp"
  let ?V = "{0..<width rp} \<times> {0..<height rp}"
  let ?P = "\<lambda>p. isOpaque rp (fst p) (snd p)"
  have V: "\<And>p. p \<in> ?V \<Longrightarrow> inRaster rp (fst p) (snd p)"
    by (auto simp: inRaster_def)
  note enc = scanMask_encloses [OF assms]
  have r: "0 \<le> x0" "x0 < width rp" "0 \<le> y0" "y0 < height rp"
    using assms(1) by (simp_all add: inRaster_def)
  have t1: "dataMinX ?b = width rp \<or> (\<exists>p \<in> ?V. ?P p \<and> fst p = dataMinX ?b)"
    and t2: "dataMinY ?b = height rp \<or> (\<exists>p \<in> ?V. ?P p \<and> snd p = dataMinY ?b)"
    and t3: "dataMaxX ?b = 0 \<or> (\<exists>p \<in> ?V. ?P p \<and> fst p = dataMaxX ?b)"
    and t4: "dataMaxY ?b = 0 \<or> (\<exists>p \<in> ?V. ?P p \<and> snd p = dataMaxY ?b)"
    using scanMask_inv [of rp] unfolding scan_inv_def by blast+
  from enc r have "dataMinX ?b \<noteq> width rp" by linarith
  with t1 obtain p where "p \<in> ?V" "?P p" "fst p = dataMinX ?b" by blast
  then show "\<exists>y. inRaster rp (dataMinX ?b) y \<and> isOpaque rp (dataMinX ?b) y"
    using V [of p] by metis
  from enc r have "dataMinY ?b \<noteq> height rp" by linarith
  with t2 obtain q where "q \<in> ?V" "?P q" "snd q = dataMinY ?b" by blast
  then show "\<exists>x. inRaster rp x (dataMinY ?b) \<and> isOpaque rp x (dataMinY ?b)"
    using V [of q] by metis
  show "\<exists>y. inRaster rp (dataMaxX ?b) y \<and> isOpaque rp (dataMaxX ?b) y"
  proof (cases "dataMaxX ?b = 0")
    case True
    with enc r have "x0 = dataMaxX ?b" by linarith
    with assms show ?thesis by blast
  next
    case False
    with t3 obtain p where "p \<in> ?V" "?P p" "fst p = dataMaxX ?b" by blast
    then show ?thesis using V [of p] by metis
  qed
  show "\<exists>x. inRaster rp x (dataMaxY ?b) \<and> isOpaque rp x (dataMaxY ?b)"
  proof (cases "dataMaxY ?b = 0")
    case True
    with enc r have "y0 = dataMaxY ?b" by linarith
    with assms show ?thesis by blast
  next
    case False
    with t4 obtain p where "p \<in> ?V" "?P p" "snd p = dataMaxY ?b" by blast
    then show ?thesis using V [of p] by metis
  qed
qed

text \<open>
  C2. For every mask of size \<open>width * height\<close>: the scan returns no bounds (and so
  \<open>getValidGeometry\<close> no geometry) if and only if no pixel has value 255; otherwise the
  returned bounds satisfy \<open>minX \<le> maxX\<close> and \<open>minY \<le> maxY\<close>, every pixel valued 255 lies in
  \<open>[minX, maxX] \<times> [minY, maxY]\<close>, and each of the four edges of the box (the columns
  \<open>minX\<close> and \<open>maxX\<close>, the rows \<open>minY\<close> and \<open>maxY\<close>) holds a pixel valued 255.
\<close>

theorem validBounds_tight_box:
  assumes len: "length (maskData rp) = nat (width rp * height rp)"
  shows "(validBounds rp = None \<longleftrightarrow> \<not> (\<exists>x y. inRaster rp x y \<and> isOpaque rp x y)) \<and>
         (validBounds rp = None \<longrightarrow> getValidGeometry G rp = None) \<and>
         (\<forall>b. validBounds rp = Some b \<longrightarrow>
            dataMinX b \<le> dataMaxX b \<and> dataMinY b \<le> dataMaxY b \<and>
            (\<forall>x y. inRaster rp x y \<and> isOpaque rp x y \<longrightarrow>
               dataMinX b \<le> x \<and> x \<le> dataMaxX b \<and> dataMinY b \<le> y \<and> y \<le> dataMaxY b) \<and>
            (\<exists>y. inRaster rp (dataMinX b) y \<and> isOpaque rp (dataMinX b) y) \<and>
            (\<exists>y. inRaster rp (dataMaxX b) y \<and> isOpaque rp (dataMaxX b) y) \<and>
            (\<exists>x. inRaster rp x (dataMinY b) \<and> isOpaque rp x (dataMinY b)) \<and>
            (\<exists>x. inRaster rp x (dataMaxY b) \<and> isOpaque rp x (dataMaxY b)))"
proof (intro conjI allI impI)
  show "validBounds rp = None \<longleftrightarrow> \<not> (\<exists>x y. inRaster rp x y \<and> isOpaque rp x y)"
  proof (cases "maskData rp = []")
    case True
    then have "validBounds rp = None" by (simp add: validBounds_def)
    moreover have "\<not> (\<exists>x y. inRaster rp x y \<and> isOpaque rp x y)"
      using empty_mask_no_pixel [OF len True] by blast
    ultimately show ?thesis by simp
  next
    case False
    then have "validBounds rp = None \<longleftrightarrow> \<not> foundData (scanMask rp)"
      by (simp add: validBounds_def Let_def)
    then show ?thesis by (simp only: scanMask_found_iff)
  qed
next
  assume "validBounds rp = None"
  then show "getValidGeometry G rp = None"
    by (simp add: getValidGeometry_def)
next
  fix b assume some: "validBounds rp = Some b"
  then have b: "b = scanMask rp" and found: "foundData (scanMask rp)"
    by (auto simp: validBounds_def Let_def split: if_splits)
  from found obtain x0 y0 where p0: "inRaster rp x0 y0" "isOpaque rp x0 y0"
    unfolding scanMask_found_iff by blast
  note enc = scanMask_encloses [OF p0]
  show "dataMinX b \<le> dataMaxX b" unfolding b using enc by linarith
  show "dataMinY b \<le> dataMaxY b" unfolding b using enc by linarith
  show "\<exists>y. inRaster rp (dataMinX b) y \<and> isOpaque rp (dataMinX b) y"
    unfolding b by (rule scanMask_edges(1) [OF p0])
  show "\<exists>y. inRaster rp (dataMaxX b) y \<and> isOpaque rp (dataMaxX b) y"
    unfolding b by (rule scanMask_edges(2) [OF p0])
  show "\<exists>x. inRaster rp x (dataMinY b) \<and> isOpaque rp x (dataMinY b)"
    unfolding b by (rule scanMask_edges(3) [OF p0])
  show "\<exists>x. inRaster rp x (dataMaxY b) \<and> isOpaque rp x (dataMaxY b)"
    unfolding b by (rule scanMask_edges(4) [OF p0])
  fix x y assume "inRaster rp x y \<and> isOpaque rp x y"
  then have "inRaster rp x y" "isOpaque rp x y" by simp_all
  from scanMask_encloses [OF this]
  show "dataMinX b \<le> x" "x \<le> dataMaxX b" "dataMinY b \<le> y" "y \<le> dataMaxY b"
    unfolding b by simp_all
qed



theorem validBounds_tight_box_witness:
  "loadRaster (sample_files (Some raster_partial) None) ''orto1.tif''
     = Inr (Some sample_mask_raster) \<and>
   length (maskData sample_mask_raster) = nat (width sample_mask_raster * height sample_mask_raster) \<and>
   validBounds sample_mask_raster =
     Some \<lparr>foundData = True, dataMinX = 1, dataMinY = 0, dataMaxX = 2, dataMaxY = 1\<rparr> \<and>
   (\<exists>y. inRaster sample_mask_raster 1 y \<and> isOpaque sample_mask_raster 1 y) \<and>
   (\<exists>y. inRaster sample_mask_raster 2 y \<and> isOpaque sample_mask_raster 2 y) \<and>
   (\<exists>x. inRaster sample_mask_raster x 0 \<and> isOpaque sample_mask_raster x 0) \<and>
   (\<exists>x. inRaster sample_mask_raster x 1 \<and> isOpaque sample_mask_raster x 1)"
proof -
  have loaded: "loadRaster (sample_files (Some raster_partial) None) ''orto1.tif''
      = Inr (Some sample_mask_raster)"
    by code_simp
  have len: "length (maskData sample_mask_raster)
      = nat (width sample_mask_raster * height sample_mask_raster)"
    by (simp add: sample_mask_raster_def openedRaster_def raster_partial_def)
  have vb: "validBounds sample_mask_raster =
      Some \<lparr>foundData = True, dataMinX = 1, dataMinY = 0, dataMaxX = 2, dataMaxY = 1\<rparr>"
    by code_simp
  from validBounds_tight_box [OF len, of sample_GEOS] vb len loaded show ?thesis
    by simp
qed

subsection \<open>Projection of a pixel corner\<close>

text \<open>
  C4. For every pixel coordinate \<open>(x, y)\<close>: with a six-parameter transform \<open>t\<close> present the
  projected point is \<open>(t0 + x*t1 + y*t2, t3 + x*t4 + y*t5)\<close>; without one it is
  \<open>(x, height - y)\<close>, \<open>height\<close> being the raster's pixel height.
\<close>

theorem pixelToGeo_affine_or_flip:
  "pixelToGeo (rp\<lparr>geoTransform := [t0, t1, t2, t3, t4, t5], hasGeoTransform := True\<rparr>) x y
     = (t0 + of_int x * t1 + of_int y * t2, t3 + of_int x * t4 + of_int y * t5)
   \<and> pixelToGeo (rp\<lparr>hasGeoTransform := False\<rparr>) x y
     = (of_int x, of_int (height rp - y))"
  by (simp add: pixelToGeo_def)

subsection \<open>The extent polygon\<close>

text \<open>
  C3. For every pixel bounding box found by the scan (at least one valid pixel), the polygon
  is built from a closed ring of exactly 5 coordinate pairs whose first point equals its
  last: with \<open>(ulx, uly)\<close> the projection of the upper-left corner \<open>(minX, minY)\<close> and
  \<open>(lrx, lry)\<close> the projection of the exclusive lower-right corner \<open>(maxX + 1, maxY + 1)\<close>, the
  vertices are \<open>(ulx, uly), (lrx, uly), (lrx, lry), (ulx, lry), (ulx, uly)\<close> in this order.
\<close>

theorem getValidGeometry_closed_ring:
  assumes "validBounds rp = Some b"
    and "pixelToGeo rp (dataMinX b) (dataMinY b) = (ulx, uly)"
    and "pixelToGeo rp (dataMaxX b + 1) (dataMaxY b + 1) = (lrx, lry)"
  shows "getValidGeometry G rp =
           GEOSGeom_createPolygon G (GEOSGeom_createLinearRing G (extentRing rp b)) \<and>
         extentRing rp b = [(ulx, uly), (lrx, uly), (lrx, lry), (ulx, lry), (ulx, uly)] \<and>
         length (extentRing rp b) = 5 \<and>
         hd (extentRing rp b) = last (extentRing rp b)"
  using assms by (simp add: getValidGeometry_def extentRing_def)

theorem getValidGeometry_closed_ring_witness:
  "validBounds sample_mask_raster =
     Some \<lparr>foundData = True, dataMinX = 1, dataMinY = 0, dataMaxX = 2, dataMaxY = 1\<rparr> \<and>
   pixelToGeo sample_mask_raster 1 0 = (1, 2) \<and>
   pixelToGeo sample_mask_raster 3 2 = (3, 0) \<and>
   getValidGeometry sample_GEOS sample_mask_raster =
     Some (SamplePolygon [(1, 2), (3, 2), (3, 0), (1, 0), (1, 2)])"
proof -
  let ?b = "\<lparr>foundData = True, dataMinX = 1, dataMinY = 0, dataMaxX = 2, dataMaxY = 1\<rparr>"
  have vb: "validBounds sample_mask_raster = Some ?b"
    by code_simp
  have ul: "pixelToGeo sample_mask_raster (dataMinX ?b) (dataMinY ?b) = (1, 2)"
    by (simp add: pixelToGeo_def sample_mask_raster_def openedRaster_def raster_partial_def)
  have lr: "pixelToGeo sample_mask_raster (dataMaxX ?b + 1) (dataMaxY ?b + 1) = (3, 0)"
    by (simp add: pixelToGeo_def sample_mask_raster_def openedRaster_def raster_partial_def)
  from getValidGeometry_closed_ring [OF vb ul lr, of sample_GEOS] vb ul lr show ?thesis
    by (simp add: sample_GEOS_def)
qed

subsection \<open>Selection of the mask band\<close>

lemma findAlphaBand_from_first:
  assumes "i \<le> j" and "j \<le> GetRasterCount ds" and "isAlphaBand ds j"
    and "\<forall>k. i \<le> k \<and> k < j \<longrightarrow> \<not> isAlphaBand ds k"
  shows "findAlphaBand_from ds i = j"
  using assms
proof (induction ds i rule: findAlphaBand_from.induct)
  case (1 ds i)
  show ?case
  proof (cases "isAlphaBand ds i")
    case True
    with "1.prems" have "i = j" by force
    moreover have "findAlphaBand_from ds i = i"
      using True "1.prems" by (simp add: findAlphaBand_from.simps [of ds i])
    ultimately show ?thesis by simp
  next
    case False
    with "1.prems" have lt: "i + 1 \<le> j" by (cases "i = j") auto
    have in_range: "i \<le> GetRasterCount ds" using "1.prems" by linarith
    have "findAlphaBand_from ds (i + 1) = j"
      using "1.IH" [OF in_range False lt] "1.prems" by simp
    with False in_range show ?thesis
      by (simp add: findAlphaBand_from.simps [of ds i])
  qed
qed

lemma findAlphaBand_from_none:
  assumes "\<forall>k. i \<le> k \<and> k \<le> GetRasterCount ds \<longrightarrow> \<not> isAlphaBand ds k"
  shows "findAlphaBand_from ds i = (if 4 \<le> GetRasterCount ds then GetRasterCount ds else - 1)"
  using assms
proof (induction ds i rule: findAlphaBand_from.induct)
  case (1 ds i)
  show ?case
  proof (cases "i \<le> GetRasterCount ds")
    case True
    with "1.prems" have no: "\<not> isAlphaBand ds i" by simp
    have "findAlphaBand_from ds (i + 1)
        = (if 4 \<le> GetRasterCount ds then GetRasterCount ds else - 1)"
      using "1.IH" [OF True no] "1.prems" by simp
    with True no show ?thesis
      by (simp add: findAlphaBand_from.simps [of ds i])
  next
    case False
    then show ?thesis
      by (simp add: findAlphaBand_from.simps [of ds i])
  qed
qed

text \<open>When some band is an alpha band, there is a first one.\<close>

lemma first_alpha_band:
  assumes "1 \<le> j" and "j \<le> GetRasterCount ds" and "isAlphaBand ds j"
  shows "\<exists>m. 1 \<le> m \<and> m \<le> j \<and> isAlphaBand ds m \<and> (\<forall>k. 1 \<le> k \<and> k < m \<longrightarrow> \<not> isAlphaBand ds k)"
proof -
  define Q where "Q = (\<lambda>n. 1 \<le> n \<and> isAlphaBand ds (int n))"
  define m where "m = (LEAST n. Q n)"
  have ex: "Q (nat j)" using assms by (simp add: Q_def)
  have m: "Q m" unfolding m_def using ex by (rule LeastI)
  have le: "m \<le> nat j" unfolding m_def using ex by (rule Least_le)
  have least: "\<And>n. n < m \<Longrightarrow> \<not> Q n"
    unfolding m_def by (rule not_less_Least)
  have "\<forall>k. 1 \<le> k \<and> k < int m \<longrightarrow> \<not> isAlphaBand ds k"
  proof (intro allI impI)
    fix k :: int assume k: "1 \<le> k \<and> k < int m"
    then have "nat k < m" and pos: "1 \<le> nat k" and kk: "int (nat k) = k" by linarith+
    from least [OF this(1)] pos show "\<not> isAlphaBand ds k"
      unfolding Q_def kk by blast
  qed
  moreover have "1 \<le> int m" "int m \<le> j" "isAlphaBand ds (int m)"
    using m le assms by (simp_all add: Q_def)
  ultimately show ?thesis by blast
qed

lemma findAlphaBand_missing_iff:
  "findAlphaBand ds = - 1 \<longleftrightarrow>
     (\<forall>k. 1 \<le> k \<and> k \<le> GetRasterCount ds \<longrightarrow> \<not> isAlphaBand ds k) \<and> GetRasterCount ds < 4"
proof (cases "\<exists>j. 1 \<le> j \<and> j \<le> GetRasterCount ds \<and> isAlphaBand ds j")
  case True
  then obtain j where j: "1 \<le> j" "j \<le> GetRasterCount ds" "isAlphaBand ds j" by blast
  from first_alpha_band [OF j] obtain m where m: "1 \<le> m" "m \<le> j" "isAlphaBand ds m"
    "\<forall>k. 1 \<le> k \<and> k < m \<longrightarrow> \<not> isAlphaBand ds k" by blast
  have "m \<le> GetRasterCount ds" using m(2) j(2) by linarith
  from findAlphaBand_from_first [OF m(1) this m(3) m(4)]
  have "findAlphaBand ds = m" by (simp add: findAlphaBand_def)
  with m(1) have "findAlphaBand ds \<noteq> - 1" by linarith
  with True show ?thesis by blast
next
  case False
  then have no: "\<forall>k. 1 \<le> k \<and> k \<le> GetRasterCount ds \<longrightarrow> \<not> isAlphaBand ds k" by blast
  from findAlphaBand_from_none [OF no]
  have "findAlphaBand ds = (if 4 \<le> GetRasterCount ds then GetRasterCount ds else - 1)"
    by (simp add: findAlphaBand_def)
  with no show ?thesis by (auto split: if_splits)
qed

lemma loadMaskData_false_iff:
  "loadMaskData rp = Inr None \<longleftrightarrow>
     findAlphaBand (dataset rp) = - 1 \<or>
     (0 \<le> int32_mul (width rp) (height rp) \<and>
      RasterIO_Read (GetRasterBand (dataset rp) (findAlphaBand (dataset rp))) = None)"
  by (simp add: loadMaskData_def Let_def split: option.splits)

lemma loadMaskData_throws_iff:
  "loadMaskData rp = Inl LengthError \<longleftrightarrow>
     findAlphaBand (dataset rp) \<noteq> - 1 \<and> int32_mul (width rp) (height rp) < 0"
  by (simp add: loadMaskData_def Let_def split: option.splits)

lemma loadMaskData_overrun_iff:
  "loadMaskData rp = Inl BufferOverrun \<longleftrightarrow>
     findAlphaBand (dataset rp) \<noteq> - 1 \<and> 0 \<le> int32_mul (width rp) (height rp) \<and>
     (\<exists>bytes. RasterIO_Read (GetRasterBand (dataset rp) (findAlphaBand (dataset rp))) = Some bytes \<and>
        nat (int32_mul (width rp) (height rp)) < length bytes)"
  by (auto simp: loadMaskData_def Let_def split: option.splits)

lemma loadMaskData_loaded:
  assumes "loadMaskData rp = Inr (Some rp')"
  shows "findAlphaBand (dataset rp) \<noteq> - 1 \<and> 0 \<le> int32_mul (width rp) (height rp) \<and>
     (\<exists>bytes. RasterIO_Read (GetRasterBand (dataset rp) (findAlphaBand (dataset rp))) = Some bytes \<and>
        length bytes \<le> nat (int32_mul (width rp) (height rp)) \<and>
        rp' = rp\<lparr>maskData :=
                bytes @ replicate (nat (int32_mul (width rp) (height rp)) - length bytes) 0\<rparr>)"
  using assms by (auto simp: loadMaskData_def Let_def split: option.splits if_splits)

text \<open>
  Every processor that was loaded holds a mask of as many bytes as the vector was resized
  to; where \<open>width * height\<close> is in the range of \<open>int\<close>, that is \<open>width * height\<close> bytes.
\<close>

lemma loadMaskData_length:
  assumes "loadMaskData rp = Inr (Some rp')"
  shows "length (maskData rp') = nat (int32_mul (width rp') (height rp'))"
proof -
  from loadMaskData_loaded [OF assms] obtain bytes where
    "length bytes \<le> nat (int32_mul (width rp) (height rp))"
    "rp' = rp\<lparr>maskData :=
                bytes @ replicate (nat (int32_mul (width rp) (height rp)) - length bytes) 0\<rparr>"
    by blast
  then show ?thesis by simp
qed

lemma int32_mul_in_range:
  "- (2 ^ 31) \<le> a * b \<Longrightarrow> a * b < 2 ^ 31 \<Longrightarrow> int32_mul a b = a * b"
  by (simp add: int32_mul_def)

text \<open>
  C10, as the program has it. For every opened raster the band used as validity mask is the
  first band (numbered from 1, ascending) whose colour interpretation is alpha; if no band
  is an alpha band and there are at least 4 bands, the last band is used; band selection
  fails only when neither holds. Loading then returns false; with a band selected it
  returns false when the read of that band reports an error, and it ends in
  \<open>std::length_error\<close>, before the read, when the \<open>int\<close> product \<open>width * height\<close> is
  negative. On success the mask starts with what the selected band delivered.
\<close>

theorem mask_band_selection:
  "(\<forall>j. 1 \<le> j \<and> j \<le> GetRasterCount ds \<and> isAlphaBand ds j \<and>
        (\<forall>k. 1 \<le> k \<and> k < j \<longrightarrow> \<not> isAlphaBand ds k) \<longrightarrow> findAlphaBand ds = j) \<and>
   ((\<forall>k. 1 \<le> k \<and> k \<le> GetRasterCount ds \<longrightarrow> \<not> isAlphaBand ds k) \<and> 4 \<le> GetRasterCount ds
      \<longrightarrow> findAlphaBand ds = GetRasterCount ds) \<and>
   (findAlphaBand ds = - 1 \<longleftrightarrow>
      (\<forall>k. 1 \<le> k \<and> k \<le> GetRasterCount ds \<longrightarrow> \<not> isAlphaBand ds k) \<and> GetRasterCount ds < 4) \<and>
   (dataset rp = ds \<longrightarrow>
      (loadMaskData rp = Inr None \<longleftrightarrow>
         findAlphaBand ds = - 1 \<or>
         (0 \<le> int32_mul (width rp) (height rp) \<and>
          RasterIO_Read (GetRasterBand ds (findAlphaBand ds)) = None))) \<and>
   (dataset rp = ds \<longrightarrow>
      (loadMaskData rp = Inl LengthError \<longleftrightarrow>
         findAlphaBand ds \<noteq> - 1 \<and> int32_mul (width rp) (height rp) < 0)) \<and>
   (dataset rp = ds \<longrightarrow>
      (loadMaskData rp = Inl BufferOverrun \<longleftrightarrow>
         findAlphaBand ds \<noteq> - 1 \<and> 0 \<le> int32_mul (width rp) (height rp) \<and>
         (\<exists>bytes. RasterIO_Read (GetRasterBand ds (findAlphaBand ds)) = Some bytes \<and>
            nat (int32_mul (width rp) (height rp)) < length bytes))) \<and>
   (\<forall>rp'. dataset rp = ds \<and> loadMaskData rp = Inr (Some rp') \<longrightarrow>
      findAlphaBand ds \<noteq> - 1 \<and> 0 \<le> int32_mul (width rp) (height rp) \<and>
      (\<exists>bytes. RasterIO_Read (GetRasterBand ds (findAlphaBand ds)) = Some bytes \<and>
         length bytes \<le> nat (int32_mul (width rp) (height rp)) \<and>
         maskData rp' =
           bytes @ replicate (nat (int32_mul (width rp) (height rp)) - length bytes) 0))"
proof (intro conjI allI impI)
  fix j
  assume "1 \<le> j \<and> j \<le> GetRasterCount ds \<and> isAlphaBand ds j \<and>
      (\<forall>k. 1 \<le> k \<and> k < j \<longrightarrow> \<not> isAlphaBand ds k)"
  then show "findAlphaBand ds = j"
    by (simp add: findAlphaBand_def findAlphaBand_from_first)
next
  assume "(\<forall>k. 1 \<le> k \<and> k \<le> GetRasterCount ds \<longrightarrow> \<not> isAlphaBand ds k) \<and> 4 \<le> GetRasterCount ds"
  then show "findAlphaBand ds = GetRasterCount ds"
    by (simp add: findAlphaBand_def findAlphaBand_from_none)
next
  show "findAlphaBand ds = - 1 \<longleftrightarrow>
      (\<forall>k. 1 \<le> k \<and> k \<le> GetRasterCount ds \<longrightarrow> \<not> isAlphaBand ds k) \<and> GetRasterCount ds < 4"
    by (rule findAlphaBand_missing_iff)
next
  assume "dataset rp = ds"
  then show "loadMaskData rp = Inr None \<longleftrightarrow>
      findAlphaBand ds = - 1 \<or>
      (0 \<le> int32_mul (width rp) (height rp) \<and>
       RasterIO_Read (GetRasterBand ds (findAlphaBand ds)) = None)"
    using loadMaskData_false_iff [of rp] by simp
next
  assume "dataset rp = ds"
  then show "loadMaskData rp = Inl LengthError \<longleftrightarrow>
      findAlphaBand ds \<noteq> - 1 \<and> int32_mul (width rp) (height rp) < 0"
    using loadMaskData_throws_iff [of rp] by simp
next
  assume "dataset rp = ds"
  then show "loadMaskData rp = Inl BufferOverrun \<longleftrightarrow>
      findAlphaBand ds \<noteq> - 1 \<and> 0 \<le> int32_mul (width rp) (height rp) \<and>
      (\<exists>bytes. RasterIO_Read (GetRasterBand ds (findAlphaBand ds)) = Some bytes \<and>
         nat (int32_mul (width rp) (height rp)) < length bytes)"
    using loadMaskData_overrun_iff [of rp] by simp
next
  fix rp' assume a: "dataset rp = ds \<and> loadMaskData rp = Inr (Some rp')"
  then have l: "loadMaskData rp = Inr (Some rp')" and d: "dataset rp = ds" by simp_all
  from loadMaskData_loaded [OF l] obtain bytes where
    b: "findAlphaBand (dataset rp) \<noteq> - 1" "0 \<le> int32_mul (width rp) (height rp)"
      "RasterIO_Read (GetRasterBand (dataset rp) (findAlphaBand (dataset rp))) = Some bytes"
      "length bytes \<le> nat (int32_mul (width rp) (height rp))"
      "rp' = rp\<lparr>maskData :=
                bytes @ replicate (nat (int32_mul (width rp) (height rp)) - length bytes) 0\<rparr>"
    by blast
  from b(5) have m: "maskData rp' =
      bytes @ replicate (nat (int32_mul (width rp) (height rp)) - length bytes) 0"
    by simp
  show "findAlphaBand ds \<noteq> - 1" using b(1) d by simp
  show "0 \<le> int32_mul (width rp) (height rp)" by (rule b(2))
  show "\<exists>bytes. RasterIO_Read (GetRasterBand ds (findAlphaBand ds)) = Some bytes \<and>
         length bytes \<le> nat (int32_mul (width rp) (height rp)) \<and>
         maskData rp' =
           bytes @ replicate (nat (int32_mul (width rp) (height rp)) - length bytes) 0"
    using b(3,4) m d by auto
qed

lemma sample_int32_mul:
  "int32_mul 2 2 = 4" "int32_mul 3 2 = 6" "int32_mul 50000 50000 = - 1794967296"
  by (simp_all add: int32_mul_def)

theorem mask_band_selection_witness:
  "findAlphaBand raster_origin = 4 \<and>
   findAlphaBand raster_cmyk = 4 \<and>
   findAlphaBand raster_rgb = - 1 \<and>
   loadMaskData (openedRaster raster_rgb) = Inr None \<and>
   loadMaskData (openedRaster raster_unreadable) = Inr None \<and>
   loadMaskData (openedRaster raster_huge) = Inl LengthError \<and>
   map_sum id (map_option maskData) (loadMaskData (openedRaster raster_cmyk))
     = Inr (Some [255, 0, 0, 255])"
proof -
  have first: "\<forall>k. 1 \<le> k \<and> k < 4 \<longrightarrow> \<not> isAlphaBand raster_origin k"
  proof (intro allI impI)
    fix k :: int assume "1 \<le> k \<and> k < 4"
    then have "k = 1 \<or> k = 2 \<or> k = 3" by arith
    then show "\<not> isAlphaBand raster_origin k" using sample_isAlphaBand by blast
  qed
  have none_cmyk: "\<forall>k. 1 \<le> k \<and> k \<le> GetRasterCount raster_cmyk \<longrightarrow> \<not> isAlphaBand raster_cmyk k"
  proof (intro allI impI)
    fix k :: int assume "1 \<le> k \<and> k \<le> GetRasterCount raster_cmyk"
    then have "k = 1 \<or> k = 2 \<or> k = 3 \<or> k = 4" unfolding sample_GetRasterCount by arith
    then show "\<not> isAlphaBand raster_cmyk k" using sample_isAlphaBand by blast
  qed
  have none_rgb: "\<forall>k. 1 \<le> k \<and> k \<le> GetRasterCount raster_rgb \<longrightarrow> \<not> isAlphaBand raster_rgb k"
  proof (intro allI impI)
    fix k :: int assume "1 \<le> k \<and> k \<le> GetRasterCount raster_rgb"
    then have "k = 1 \<or> k = 2 \<or> k = 3" unfolding sample_GetRasterCount by arith
    then show "\<not> isAlphaBand raster_rgb k" using sample_isAlphaBand by blast
  qed
  have one: "\<And>ds. \<forall>k. 1 \<le> k \<and> k < 1 \<longrightarrow> \<not> isAlphaBand ds k" by auto
  have a: "findAlphaBand raster_origin = 4"
    using mask_band_selection [of raster_origin] first sample_isAlphaBand(4) sample_GetRasterCount(1)
    by simp
  have b: "findAlphaBand raster_cmyk = 4"
    using mask_band_selection [of raster_cmyk] none_cmyk sample_GetRasterCount(2) by simp
  have c: "findAlphaBand raster_rgb = - 1"
    using mask_band_selection [of raster_rgb] none_rgb sample_GetRasterCount(3) by simp
  have d: "loadMaskData (openedRaster raster_rgb) = Inr None"
    using mask_band_selection [of raster_rgb "openedRaster raster_rgb"] c by simp
  have e1: "findAlphaBand raster_unreadable = 1"
    using mask_band_selection [of raster_unreadable] one [of raster_unreadable]
      sample_isAlphaBand(12) sample_GetRasterCount(4)
    by simp
  have e2: "RasterIO_Read (GetRasterBand raster_unreadable 1) = None"
    by (simp add: GetRasterBand_def raster_unreadable_def)
  have e3: "int32_mul (width (openedRaster raster_unreadable)) (height (openedRaster raster_unreadable)) = 4"
    by (simp add: openedRaster_def raster_unreadable_def sample_int32_mul)
  have e: "loadMaskData (openedRaster raster_unreadable) = Inr None"
    using mask_band_selection [of raster_unreadable "openedRaster raster_unreadable"] e1 e2 e3
    by simp
  have h1: "findAlphaBand raster_huge = 1"
    using mask_band_selection [of raster_huge] one [of raster_huge]
      sample_isAlphaBand(13) sample_GetRasterCount(5)
    by simp
  have h2: "int32_mul (width (openedRaster raster_huge)) (height (openedRaster raster_huge))
      = - 1794967296"
    by (simp add: openedRaster_def raster_huge_def sample_int32_mul)
  have h: "loadMaskData (openedRaster raster_huge) = Inl LengthError"
    using mask_band_selection [of raster_huge "openedRaster raster_huge"] h1 h2 by simp
  have f: "map_sum id (map_option maskData) (loadMaskData (openedRaster raster_cmyk))
      = Inr (Some [255, 0, 0, 255])"
    by code_simp
  from a b c d e h f show ?thesis by simp
qed

text \<open>
  Loading can fail although the raster has an alpha band: the only band of
  \<open>raster_unreadable\<close> is an alpha band, and its read reports an error.
\<close>

theorem load_fails_with_alpha_band_counterexample:
  "isAlphaBand raster_unreadable 1 \<and>
   loadRaster (sample_files (Some raster_unreadable) None) ''orto1.tif'' = Inr None"
proof -
  have "findAlphaBand raster_unreadable = 1"
    by (simp add: findAlphaBand_def findAlphaBand_from.simps [of _ 1] sample_isAlphaBand sample_GetRasterCount)
  then have "loadMaskData (openedRaster raster_unreadable) = Inr None"
    by (simp add: loadMaskData_def GetRasterBand_def raster_unreadable_def openedRaster_def
        sample_int32_mul)
  then show ?thesis
    by (simp add: loadRaster_def sample_isAlphaBand)
qed

subsection \<open>The runs of main\<close>

lemma main_first_failed:
  assumes "loadFailed (loadRaster GDALOpen ''orto1.tif'')"
  shows "main fmt G GDALOpen = Inr \<lparr>exitStatus = 1, outputFile = None\<rparr>"
  using assms by (auto simp: main_def main_try_def loadFailed_def)

lemma main_second_failed:
  assumes "loadRaster GDALOpen ''orto1.tif'' = Inr (Some processor1)"
    and "loadFailed (loadRaster GDALOpen ''orto2.tif'')"
  shows "main fmt G GDALOpen = Inr \<lparr>exitStatus = 1, outputFile = None\<rparr>"
  using assms by (auto simp: main_def main_try_def loadFailed_def)

lemma main_loaded:
  assumes "loadRaster GDALOpen ''orto1.tif'' = Inr (Some processor1)"
    and "loadRaster GDALOpen ''orto2.tif'' = Inr (Some processor2)"
  shows "main fmt G GDALOpen = main_try fmt G GDALOpen"
    and "\<exists>r. main_try fmt G GDALOpen = Inr r \<and> exitStatus r = 0"
  using assms by (auto simp: main_def main_try_def split: option.splits)

lemma main_no_geometry:
  assumes "loadRaster GDALOpen ''orto1.tif'' = Inr (Some processor1)"
    and "loadRaster GDALOpen ''orto2.tif'' = Inr (Some processor2)"
    and "getValidGeometry G processor1 = None \<or> getValidGeometry G processor2 = None"
  shows "main fmt G GDALOpen = Inr \<lparr>exitStatus = 0, outputFile = None\<rparr>"
  using assms by (auto simp: main_def main_try_def split: option.splits)

lemma main_no_intersection:
  assumes "loadRaster GDALOpen ''orto1.tif'' = Inr (Some processor1)"
    and "loadRaster GDALOpen ''orto2.tif'' = Inr (Some processor2)"
    and "getValidGeometry G processor1 = Some geometry1"
    and "getValidGeometry G processor2 = Some geometry2"
    and "GEOSIntersection G geometry1 geometry2 = None \<or>
         (\<exists>intersection. GEOSIntersection G geometry1 geometry2 = Some intersection \<and>
            GEOSisEmpty G intersection \<noteq> 0)"
  shows "main fmt G GDALOpen = Inr \<lparr>exitStatus = 0, outputFile = Some (dump fmt 4 emptyGeojson)\<rparr>"
  using assms by (auto simp: main_def main_try_def)

lemma main_intersection:
  assumes "loadRaster GDALOpen ''orto1.tif'' = Inr (Some processor1)"
    and "loadRaster GDALOpen ''orto2.tif'' = Inr (Some processor2)"
    and "getValidGeometry G processor1 = Some geometry1"
    and "getValidGeometry G processor2 = Some geometry2"
    and "GEOSIntersection G geometry1 geometry2 = Some intersection"
    and "GEOSisEmpty G intersection = 0"
  shows "main fmt G GDALOpen =
           Inr \<lparr>exitStatus = 0, outputFile = Some (geometryToGeoJSON fmt G (Some intersection))\<rparr>"
  using assms by (simp add: main_def main_try_def)

lemma main_overrun:
  assumes "loadRaster GDALOpen ''orto1.tif'' = Inl BufferOverrun \<or>
     (\<exists>processor1. loadRaster GDALOpen ''orto1.tif'' = Inr (Some processor1)) \<and>
     loadRaster GDALOpen ''orto2.tif'' = Inl BufferOverrun"
  shows "main fmt G GDALOpen = Inl BufferOverrun"
  using assms by (auto simp: main_def main_try_def)

text \<open>The outcomes of a load: loaded, failed, or an overrun.\<close>

lemma load_outcomes:
  "(\<exists>processor. r = Inr (Some processor)) \<or> loadFailed r \<or> r = Inl BufferOverrun"
proof (cases r)
  case (Inl e)
  then show ?thesis by (cases e) (simp_all add: loadFailed_def)
next
  case (Inr p)
  then show ?thesis by (cases p) (simp_all add: loadFailed_def)
qed

lemma getValidGeometry_no_bounds:
  "validBounds rp = None \<Longrightarrow> getValidGeometry G rp = None"
  by (simp add: getValidGeometry_def)

lemma loadRaster_no_mask_band:
  assumes "GDALOpen filename = Some ds"
    and "\<forall>k. 1 \<le> k \<and> k \<le> GetRasterCount ds \<longrightarrow> \<not> isAlphaBand ds k"
    and "GetRasterCount ds < 4"
  shows "loadRaster GDALOpen filename = Inr None"
proof -
  have "findAlphaBand ds = - 1"
    using assms(2,3) by (simp add: findAlphaBand_missing_iff)
  then have "loadMaskData (openedRaster ds) = Inr None"
    by (simp add: loadMaskData_false_iff)
  with assms(1) show ?thesis by (simp add: loadRaster_opened)
qed

lemma loadRaster_length_error:
  assumes "GDALOpen filename = Some ds"
    and "findAlphaBand ds \<noteq> - 1"
    and "int32_mul (RasterXSize ds) (RasterYSize ds) < 0"
  shows "loadRaster GDALOpen filename = Inl LengthError"
proof -
  have "loadMaskData (openedRaster ds) = Inl LengthError"
    using assms(2,3) by (simp add: loadMaskData_throws_iff openedRaster_def)
  with assms(1) show ?thesis by (simp add: loadRaster_opened)
qed

lemma loadRaster_read_error:
  assumes "GDALOpen filename = Some ds"
    and "findAlphaBand ds \<noteq> - 1"
    and "0 \<le> int32_mul (RasterXSize ds) (RasterYSize ds)"
    and "RasterIO_Read (GetRasterBand ds (findAlphaBand ds)) = None"
  shows "loadRaster GDALOpen filename = Inr None"
proof -
  have "loadMaskData (openedRaster ds) = Inr None"
    using assms(2,3,4) by (simp add: loadMaskData_false_iff openedRaster_def)
  with assms(1) show ?thesis by (simp add: loadRaster_opened)
qed

text \<open>
  A loaded raster whose \<open>width * height\<close> is in the range of \<open>int\<close> holds a mask of
  \<open>width * height\<close> bytes.
\<close>

lemma loadRaster_mask_size:
  assumes "loadRaster GDALOpen filename = Inr (Some rp)"
    and "- (2 ^ 31) \<le> width rp * height rp" and "width rp * height rp < 2 ^ 31"
  shows "length (maskData rp) = nat (width rp * height rp)"
proof -
  from assms(1) obtain ds where "loadMaskData (openedRaster ds) = Inr (Some rp)"
    by (auto simp: loadRaster_def split: option.splits)
  from loadMaskData_length [OF this] int32_mul_in_range [OF assms(2,3)]
  show ?thesis by simp
qed

text \<open>
  C7. The exit status is non-zero (it is 1, and nothing is written) when either raster
  fails to load, be it that the load returns false or that it ends in an exception, which
  \<open>main\<close> catches. A raster that cannot be opened fails to load, and so does, in the same
  way, an opened raster that has no band with alpha colour interpretation and fewer than 4
  bands; a raster whose selected band cannot be read fails to load, and one whose \<open>int\<close>
  product \<open>width * height\<close> is negative fails with \<open>std::length_error\<close>. When both rasters
  load the exit status is 0, in particular when a document is written.
\<close>

theorem main_exit_status:
  "(loadFailed (loadRaster GDALOpen ''orto1.tif'') \<or>
    (\<exists>processor1. loadRaster GDALOpen ''orto1.tif'' = Inr (Some processor1)) \<and>
    loadFailed (loadRaster GDALOpen ''orto2.tif'') \<longrightarrow>
      (\<exists>r. main fmt G GDALOpen = Inr r \<and> exitStatus r = 1 \<and> exitStatus r \<noteq> 0 \<and>
           outputFile r = None)) \<and>
   (GDALOpen filename = None \<longrightarrow> loadRaster GDALOpen filename = Inr None) \<and>
   (\<forall>ds. GDALOpen filename = Some ds \<and>
         (\<forall>k. 1 \<le> k \<and> k \<le> GetRasterCount ds \<longrightarrow> \<not> isAlphaBand ds k) \<and>
         GetRasterCount ds < 4 \<longrightarrow> loadRaster GDALOpen filename = Inr None) \<and>
   (\<forall>ds. GDALOpen filename = Some ds \<and> findAlphaBand ds \<noteq> - 1 \<and>
         int32_mul (RasterXSize ds) (RasterYSize ds) < 0 \<longrightarrow>
         loadRaster GDALOpen filename = Inl LengthError) \<and>
   (\<forall>ds. GDALOpen filename = Some ds \<and> findAlphaBand ds \<noteq> - 1 \<and>
         0 \<le> int32_mul (RasterXSize ds) (RasterYSize ds) \<and>
         RasterIO_Read (GetRasterBand ds (findAlphaBand ds)) = None \<longrightarrow>
         loadRaster GDALOpen filename = Inr None) \<and>
   (\<forall>processor1 processor2.
      loadRaster GDALOpen ''orto1.tif'' = Inr (Some processor1) \<and>
      loadRaster GDALOpen ''orto2.tif'' = Inr (Some processor2) \<longrightarrow>
      (\<exists>r. main fmt G GDALOpen = Inr r \<and> exitStatus r = 0)) \<and>
   (\<forall>processor1 processor2 r.
      loadRaster GDALOpen ''orto1.tif'' = Inr (Some processor1) \<and>
      loadRaster GDALOpen ''orto2.tif'' = Inr (Some processor2) \<and>
      main fmt G GDALOpen = Inr r \<and> outputFile r \<noteq> None \<longrightarrow> exitStatus r = 0)"
proof (intro conjI allI impI)
  assume "loadFailed (loadRaster GDALOpen ''orto1.tif'') \<or>
    (\<exists>processor1. loadRaster GDALOpen ''orto1.tif'' = Inr (Some processor1)) \<and>
    loadFailed (loadRaster GDALOpen ''orto2.tif'')"
  then have "main fmt G GDALOpen = Inr \<lparr>exitStatus = 1, outputFile = None\<rparr>"
    using main_first_failed [of GDALOpen fmt G] main_second_failed [of GDALOpen _ fmt G]
    by auto
  then show "\<exists>r. main fmt G GDALOpen = Inr r \<and> exitStatus r = 1 \<and> exitStatus r \<noteq> 0 \<and>
           outputFile r = None"
    by simp
next
  assume "GDALOpen filename = None"
  then show "loadRaster GDALOpen filename = Inr None"
    by (simp add: loadRaster_def)
next
  fix ds
  assume "GDALOpen filename = Some ds \<and>
      (\<forall>k. 1 \<le> k \<and> k \<le> GetRasterCount ds \<longrightarrow> \<not> isAlphaBand ds k) \<and> GetRasterCount ds < 4"
  then show "loadRaster GDALOpen filename = Inr None"
    using loadRaster_no_mask_band [of GDALOpen filename ds] by blast
next
  fix ds
  assume "GDALOpen filename = Some ds \<and> findAlphaBand ds \<noteq> - 1 \<and>
      int32_mul (RasterXSize ds) (RasterYSize ds) < 0"
  then show "loadRaster GDALOpen filename = Inl LengthError"
    using loadRaster_length_error [of GDALOpen filename ds] by blast
next
  fix ds
  assume "GDALOpen filename = Some ds \<and> findAlphaBand ds \<noteq> - 1 \<and>
      0 \<le> int32_mul (RasterXSize ds) (RasterYSize ds) \<and>
      RasterIO_Read (GetRasterBand ds (findAlphaBand ds)) = None"
  then show "loadRaster GDALOpen filename = Inr None"
    using loadRaster_read_error [of GDALOpen filename ds] by blast
next
  fix processor1 processor2
  assume "loadRaster GDALOpen ''orto1.tif'' = Inr (Some processor1) \<and>
      loadRaster GDALOpen ''orto2.tif'' = Inr (Some processor2)"
  then have l: "loadRaster GDALOpen ''orto1.tif'' = Inr (Some processor1)"
    "loadRaster GDALOpen ''orto2.tif'' = Inr (Some processor2)" by simp_all
  from main_loaded [OF l, of fmt G]
  show "\<exists>r. main fmt G GDALOpen = Inr r \<and> exitStatus r = 0" by simp
next
  fix processor1 processor2 r
  assume "loadRaster GDALOpen ''orto1.tif'' = Inr (Some processor1) \<and>
      loadRaster GDALOpen ''orto2.tif'' = Inr (Some processor2) \<and>
      main fmt G GDALOpen = Inr r \<and> outputFile r \<noteq> None"
  then have l: "loadRaster GDALOpen ''orto1.tif'' = Inr (Some processor1)"
    "loadRaster GDALOpen ''orto2.tif'' = Inr (Some processor2)"
    and r: "main fmt G GDALOpen = Inr r" by simp_all
  from main_loaded [OF l, of fmt G] r
  show "exitStatus r = 0" by auto
qed

theorem main_exit_status_witness:
  "main sample_fmt sample_GEOS (sample_files None (Some raster_origin))
     = Inr \<lparr>exitStatus = 1, outputFile = None\<rparr> \<and>
   loadRaster (sample_files (Some raster_origin) (Some raster_rgb)) ''orto2.tif'' = Inr None \<and>
   main sample_fmt sample_GEOS (sample_files (Some raster_origin) (Some raster_rgb))
     = Inr \<lparr>exitStatus = 1, outputFile = None\<rparr> \<and>
   loadRaster (sample_files (Some raster_origin) (Some raster_unreadable)) ''orto2.tif'' = Inr None \<and>
   loadRaster (sample_files (Some raster_huge) (Some raster_origin)) ''orto1.tif''
     = Inl LengthError \<and>
   main sample_fmt sample_GEOS (sample_files (Some raster_huge) (Some raster_origin))
     = Inr \<lparr>exitStatus = 1, outputFile = None\<rparr> \<and>
   loadRaster (sample_files (Some raster_origin) (Some raster_shifted)) ''orto1.tif''
     = Inr (Some processor_origin) \<and>
   loadRaster (sample_files (Some raster_origin) (Some raster_shifted)) ''orto2.tif''
     = Inr (Some processor_shifted) \<and>
   main sample_fmt sample_GEOS (sample_files (Some raster_origin) (Some raster_shifted))
     = Inr \<lparr>exitStatus = 0, outputFile = Some (dump sample_fmt 4 (featureCollection 1 1 2 2))\<rparr>"
proof -
  let ?missing = "sample_files None (Some raster_origin)"
  let ?rgb = "sample_files (Some raster_origin) (Some raster_rgb)"
  let ?unreadable = "sample_files (Some raster_origin) (Some raster_unreadable)"
  let ?huge = "sample_files (Some raster_huge) (Some raster_origin)"
  let ?both = "sample_files (Some raster_origin) (Some raster_shifted)"
  have one: "\<And>ds. \<forall>k. 1 \<le> k \<and> k < 1 \<longrightarrow> \<not> isAlphaBand ds k" by auto
  have m: "loadRaster ?missing ''orto1.tif'' = Inr None"
    using main_exit_status [where GDALOpen = ?missing and filename = "''orto1.tif''"
        and fmt = sample_fmt and G = sample_GEOS]
    by simp
  have a: "main sample_fmt sample_GEOS ?missing = Inr \<lparr>exitStatus = 1, outputFile = None\<rparr>"
    using main_exit_status [where GDALOpen = ?missing and filename = "''orto1.tif''"
        and fmt = sample_fmt and G = sample_GEOS] m
    by (auto simp: loadFailed_def)
  have l1: "loadRaster ?rgb ''orto1.tif'' = Inr (Some processor_origin)" by code_simp
  have none_rgb: "\<forall>k. 1 \<le> k \<and> k \<le> GetRasterCount raster_rgb \<longrightarrow> \<not> isAlphaBand raster_rgb k"
  proof (intro allI impI)
    fix k :: int assume "1 \<le> k \<and> k \<le> GetRasterCount raster_rgb"
    then have "k = 1 \<or> k = 2 \<or> k = 3" unfolding sample_GetRasterCount by arith
    then show "\<not> isAlphaBand raster_rgb k" using sample_isAlphaBand by blast
  qed
  have b: "loadRaster ?rgb ''orto2.tif'' = Inr None"
    using main_exit_status [where GDALOpen = ?rgb and filename = "''orto2.tif''"
        and fmt = sample_fmt and G = sample_GEOS]
      none_rgb sample_GetRasterCount(3) by simp
  have c: "main sample_fmt sample_GEOS ?rgb = Inr \<lparr>exitStatus = 1, outputFile = None\<rparr>"
    using main_exit_status [where GDALOpen = ?rgb and filename = "''orto2.tif''"
        and fmt = sample_fmt and G = sample_GEOS] l1 b
    by (auto simp: loadFailed_def)
  have u1: "findAlphaBand raster_unreadable = 1"
    by (simp add: findAlphaBand_def findAlphaBand_from.simps [of _ 1]
        sample_isAlphaBand sample_GetRasterCount)
  have u: "loadRaster ?unreadable ''orto2.tif'' = Inr None"
    using main_exit_status [where GDALOpen = ?unreadable and filename = "''orto2.tif''"
        and fmt = sample_fmt and G = sample_GEOS] u1
    by (simp add: raster_unreadable_def GetRasterBand_def sample_int32_mul)
  have h1: "findAlphaBand raster_huge = 1"
    by (simp add: findAlphaBand_def findAlphaBand_from.simps [of _ 1]
        sample_isAlphaBand sample_GetRasterCount)
  have h2: "int32_mul (RasterXSize raster_huge) (RasterYSize raster_huge) < 0"
    by (simp add: raster_huge_def sample_int32_mul)
  have h: "loadRaster ?huge ''orto1.tif'' = Inl LengthError"
    using main_exit_status [where GDALOpen = ?huge and filename = "''orto1.tif''"
        and fmt = sample_fmt and G = sample_GEOS] h1 h2
    by simp
  have d: "main sample_fmt sample_GEOS ?huge = Inr \<lparr>exitStatus = 1, outputFile = None\<rparr>"
    using main_exit_status [where GDALOpen = ?huge and filename = "''orto1.tif''"
        and fmt = sample_fmt and G = sample_GEOS] h
    by (auto simp: loadFailed_def)
  have b1: "loadRaster ?both ''orto1.tif'' = Inr (Some processor_origin)" by code_simp
  have b2: "loadRaster ?both ''orto2.tif'' = Inr (Some processor_shifted)" by code_simp
  have w: "main sample_fmt sample_GEOS ?both
      = Inr \<lparr>exitStatus = 0, outputFile = Some (dump sample_fmt 4 (featureCollection 1 1 2 2))\<rparr>"
    by code_simp
  from a b c u h d b1 b2 w show ?thesis by simp
qed

text \<open>
  C1, as the program has it. For every run in which both rasters load: if at least one
  raster's mask scan finds no valid pixel (so that raster's polygon is absent), the run
  ends with exit status 0 and writes no output document. A document is written exactly
  when both polygons exist.
\<close>

theorem main_absent_polygon_writes_nothing:
  assumes "loadRaster GDALOpen ''orto1.tif'' = Inr (Some processor1)"
    and "loadRaster GDALOpen ''orto2.tif'' = Inr (Some processor2)"
  shows "(validBounds processor1 = None \<or> validBounds processor2 = None \<longrightarrow>
            main fmt G GDALOpen = Inr \<lparr>exitStatus = 0, outputFile = None\<rparr>) \<and>
         (\<exists>r. main fmt G GDALOpen = Inr r \<and>
            (outputFile r \<noteq> None \<longleftrightarrow>
               getValidGeometry G processor1 \<noteq> None \<and> getValidGeometry G processor2 \<noteq> None))"
proof (intro conjI impI)
  assume "validBounds processor1 = None \<or> validBounds processor2 = None"
  then have "getValidGeometry G processor1 = None \<or> getValidGeometry G processor2 = None"
    using getValidGeometry_no_bounds [of processor1 G] getValidGeometry_no_bounds [of processor2 G]
    by auto
  from main_no_geometry [OF assms this]
  show "main fmt G GDALOpen = Inr \<lparr>exitStatus = 0, outputFile = None\<rparr>" .
next
  show "\<exists>r. main fmt G GDALOpen = Inr r \<and>
      (outputFile r \<noteq> None \<longleftrightarrow>
         getValidGeometry G processor1 \<noteq> None \<and> getValidGeometry G processor2 \<noteq> None)"
    using assms by (auto simp: main_def main_try_def split: option.splits)
qed

theorem main_absent_polygon_writes_nothing_witness:
  "loadRaster (sample_files (Some raster_origin) (Some raster_blank)) ''orto1.tif''
     = Inr (Some processor_origin) \<and>
   loadRaster (sample_files (Some raster_origin) (Some raster_blank)) ''orto2.tif''
     = Inr (Some processor_blank) \<and>
   validBounds processor_blank = None \<and>
   main sample_fmt sample_GEOS (sample_files (Some raster_origin) (Some raster_blank))
     = Inr \<lparr>exitStatus = 0, outputFile = None\<rparr>"
proof -
  let ?files = "sample_files (Some raster_origin) (Some raster_blank)"
  have l1: "loadRaster ?files ''orto1.tif'' = Inr (Some processor_origin)" by code_simp
  have l2: "loadRaster ?files ''orto2.tif'' = Inr (Some processor_blank)" by code_simp
  have vb: "validBounds processor_blank = None" by code_simp
  from main_absent_polygon_writes_nothing [OF l1 l2, of sample_fmt sample_GEOS] vb l1 l2
  show ?thesis by simp
qed

text \<open>
  The run on a fully opaque raster and a raster without any opaque pixel: both load, the
  second has no polygon, and the run ends without having written a document.
\<close>

theorem main_absent_polygon_counterexample:
  "loadRaster (sample_files (Some raster_origin) (Some raster_blank)) ''orto1.tif''
     = Inr (Some processor_origin) \<and>
   loadRaster (sample_files (Some raster_origin) (Some raster_blank)) ''orto2.tif''
     = Inr (Some processor_blank) \<and>
   getValidGeometry sample_GEOS processor_blank = None \<and>
   main sample_fmt sample_GEOS (sample_files (Some raster_origin) (Some raster_blank))
     = Inr \<lparr>exitStatus = 0, outputFile = None\<rparr>"
  by code_simp

subsection \<open>The two documents as values and as text\<close>

lemma emptyGeojson_value:
  "emptyGeojson = JObject [(''features'', JArray []), (''type'', JString ''FeatureCollection'')]"
  by (simp add: emptyGeojson_def json_init_def json_array_def)

lemma featureCollection_value:
  "featureCollection minX minY maxX maxY =
     JObject
       [(''features'',
         JArray
           [JObject
              [(''geometry'',
                JObject
                  [(''coordinates'',
                    JArray
                      [JArray
                         [JArray [JNumber minX, JNumber minY],
                          JArray [JNumber maxX, JNumber minY],
                          JArray [JNumber maxX, JNumber maxY],
                          JArray [JNumber minX, JNumber maxY],
                          JArray [JNumber minX, JNumber minY]]]),
                   (''type'', JString ''Polygon'')]),
               (''properties'', JObject [(''name'', JString ''Intersection Area'')]),
               (''type'', JString ''Feature'')]]),
        (''type'', JString ''FeatureCollection'')]"
  by (simp add: featureCollection_def json_init_def)

lemma dump_string_plain:
  \<open>dump_string ''features'' = ''"features"''\<close>
  \<open>dump_string ''type'' = ''"type"''\<close>
  \<open>dump_string ''FeatureCollection'' = ''"FeatureCollection"''\<close>
  \<open>dump_string ''Feature'' = ''"Feature"''\<close>
  \<open>dump_string ''geometry'' = ''"geometry"''\<close>
  \<open>dump_string ''coordinates'' = ''"coordinates"''\<close>
  \<open>dump_string ''Polygon'' = ''"Polygon"''\<close>
  \<open>dump_string ''properties'' = ''"properties"''\<close>
  \<open>dump_string ''name'' = ''"name"''\<close>
  \<open>dump_string ''Intersection Area'' = ''"Intersection Area"''\<close>
  by (simp_all add: dump_string_def dump_escaped_char_def)

lemma dump_emptyGeojson:
  \<open>dump fmt 4 emptyGeojson =
     join_lines
       [''{'',
        ''    "features": [],'',
        ''    "type": "FeatureCollection"'',
        ''}'']\<close>
  by (simp add: emptyGeojson_value dump_def dump_string_plain indent_string_def numeral_eq_Suc)

lemma strip_dump_emptyGeojson:
  \<open>strip_whitespace (dump fmt 4 emptyGeojson) = ''{"features":[],"type":"FeatureCollection"}''\<close>
  by (simp add: dump_emptyGeojson strip_whitespace_def)

lemma dump_featureCollection:
  \<open>dump fmt 4 (featureCollection minX minY maxX maxY) =
     join_lines
       [''{'',
        ''    "features": ['',
        ''        {'',
        ''            "geometry": {'',
        ''                "coordinates": ['',
        ''                    ['',
        ''                        ['',
        ''                            '' @ fmt minX @ '','',
        ''                            '' @ fmt minY,
        ''                        ],'',
        ''                        ['',
        ''                            '' @ fmt maxX @ '','',
        ''                            '' @ fmt minY,
        ''                        ],'',
        ''                        ['',
        ''                            '' @ fmt maxX @ '','',
        ''                            '' @ fmt maxY,
        ''                        ],'',
        ''                        ['',
        ''                            '' @ fmt minX @ '','',
        ''                            '' @ fmt maxY,
        ''                        ],'',
        ''                        ['',
        ''                            '' @ fmt minX @ '','',
        ''                            '' @ fmt minY,
        ''                        ]'',
        ''                    ]'',
        ''                ],'',
        ''                "type": "Polygon"'',
        ''            },'',
        ''            "properties": {'',
        ''                "name": "Intersection Area"'',
        ''            },'',
        ''            "type": "Feature"'',
        ''        }'',
        ''    ],'',
        ''    "type": "FeatureCollection"'',
        ''}'']\<close>
  by (simp add: featureCollection_value dump_def dump_string_plain indent_string_def numeral_eq_Suc)


lemma featureCollection_members:
  "\<exists>feature polygon.
      json_member (featureCollection minX minY maxX maxY) ''type''
        = Some (JString ''FeatureCollection'') \<and>
      json_member (featureCollection minX minY maxX maxY) ''features'' = Some (JArray [feature]) \<and>
      json_member feature ''type'' = Some (JString ''Feature'') \<and>
      json_member feature ''properties'' = Some (JObject [(''name'', JString ''Intersection Area'')]) \<and>
      json_member feature ''geometry'' = Some polygon \<and>
      json_member polygon ''type'' = Some (JString ''Polygon'') \<and>
      json_member polygon ''coordinates'' =
        Some (JArray [JArray [JArray [JNumber minX, JNumber minY], JArray [JNumber maxX, JNumber minY],
               JArray [JNumber maxX, JNumber maxY], JArray [JNumber minX, JNumber maxY],
               JArray [JNumber minX, JNumber minY]]])"
  by (simp add: featureCollection_value)

lemma featureCollection_keys:
  "\<exists>feature polygon.
      json_member (featureCollection minX minY maxX maxY) ''features'' = Some (JArray [feature]) \<and>
      json_member feature ''geometry'' = Some polygon \<and>
      json_keys (featureCollection minX minY maxX maxY) = [''features'', ''type''] \<and>
      json_keys feature = [''geometry'', ''properties'', ''type''] \<and>
      json_keys polygon = [''coordinates'', ''type'']"
  by (simp add: featureCollection_value)

subsection \<open>geometryToGeoJSON\<close>

lemma envelopeBounds_ring:
  assumes "GEOSEnvelope G geometry = Some envelope"
    and "GEOSGetExteriorRing G envelope = Some ring"
    and "GEOSGeom_getCoordSeq G ring
           = Some [(minX, minY), (maxX, minY), (maxX, maxY), (minX, maxY), (minX, minY)]"
  shows "envelopeBounds G geometry = (minX, minY, maxX, maxY)"
  using assms by (simp add: envelopeBounds_def GEOSCoordSeq_getX_def GEOSCoordSeq_getY_def)

lemma envelopeBounds_default:
  assumes "GEOSEnvelope G geometry = None \<or>
     (\<exists>envelope. GEOSEnvelope G geometry = Some envelope \<and>
        (GEOSGetExteriorRing G envelope = None \<or>
         (\<exists>ring. GEOSGetExteriorRing G envelope = Some ring \<and> GEOSGeom_getCoordSeq G ring = None)))"
  shows "envelopeBounds G geometry = (0, 0, 100, 100)"
  using assms by (auto simp: envelopeBounds_def)

text \<open>
  Where the envelope of the geometry comes back as a polygon, with an exterior ring whose
  coordinate sequence lists the corners as
  \<open>(minX,minY), (maxX,minY), (maxX,maxY), (minX,maxY), (minX,minY)\<close>, the document is a
  FeatureCollection with exactly one Feature, its property \<open>name\<close> is \<open>Intersection Area\<close>
  and its Polygon ring is the 5-point rectangle of that envelope in this order.
\<close>

lemma geometryToGeoJSON_polygon_envelope:
  assumes "GEOSEnvelope G geometry = Some envelope"
    and "GEOSGetExteriorRing G envelope = Some ring"
    and "GEOSGeom_getCoordSeq G ring
           = Some [(minX, minY), (maxX, minY), (maxX, maxY), (minX, maxY), (minX, minY)]"
  shows "\<exists>document feature polygon.
      geometryToGeoJSON fmt G (Some geometry) = dump fmt 4 document \<and>
      document = featureCollection minX minY maxX maxY \<and>
      json_member document ''type'' = Some (JString ''FeatureCollection'') \<and>
      json_member document ''features'' = Some (JArray [feature]) \<and>
      json_member feature ''type'' = Some (JString ''Feature'') \<and>
      json_member feature ''properties'' = Some (JObject [(''name'', JString ''Intersection Area'')]) \<and>
      json_member feature ''geometry'' = Some polygon \<and>
      json_member polygon ''type'' = Some (JString ''Polygon'') \<and>
      json_member polygon ''coordinates'' =
        Some (JArray [JArray [JArray [JNumber minX, JNumber minY], JArray [JNumber maxX, JNumber minY],
               JArray [JNumber maxX, JNumber maxY], JArray [JNumber minX, JNumber maxY],
               JArray [JNumber minX, JNumber minY]]])"
proof -
  have "geometryToGeoJSON fmt G (Some geometry) = dump fmt 4 (featureCollection minX minY maxX maxY)"
    by (simp add: geometryToGeoJSON_def envelopeBounds_ring [OF assms])
  with featureCollection_members [of minX minY maxX maxY] show ?thesis
    by blast
qed

lemma geometryToGeoJSON_polygon_envelope_example:
  "geometryToGeoJSON sample_fmt sample_GEOS (Some (SamplePolygon [(1, 1), (2, 1), (2, 2), (1, 2), (1, 1)]))
     = dump sample_fmt 4 (featureCollection 1 1 2 2)"
proof -
  let ?g = "SamplePolygon [(1, 1), (2, 1), (2, 2), (1, 2), (1, 1)]"
  let ?r = "SampleLinearRing [(1, 1), (2, 1), (2, 2), (1, 2), (1, 1)]"
  have e: "GEOSEnvelope sample_GEOS ?g = Some ?g"
    by (simp add: sample_GEOS_def)
  have r: "GEOSGetExteriorRing sample_GEOS ?g = Some ?r"
    by (simp add: sample_GEOS_def)
  have c: "GEOSGeom_getCoordSeq sample_GEOS ?r = Some [(1, 1), (2, 1), (2, 2), (1, 2), (1, 1)]"
    by (simp add: sample_GEOS_def)
  from geometryToGeoJSON_polygon_envelope [OF e r c, of sample_fmt] show ?thesis
    by auto
qed

text \<open>
  C5. For every non-empty intersection geometry the serialized document is to be a
  FeatureCollection containing exactly one Feature, named \<open>Intersection Area\<close>, whose
  Polygon ring is the 5-point rectangle of the geometry's axis-aligned envelope. The
  program, which sets out to read the bounding box of the geometry from its envelope, does
  not do so for every such geometry: two rasters that touch in a corner intersect in a
  point, which is not empty; the envelope of the point is the point itself and has no
  exterior ring, and the document of the run holds the rectangle from \<open>(0, 0)\<close> to
  \<open>(100, 100)\<close> instead of the envelope, which is the point \<open>(2, 2)\<close>.
\<close>

theorem geometryToGeoJSON_point_intersection:
  "loadRaster (sample_files (Some raster_origin) (Some raster_corner)) ''orto1.tif''
     = Inr (Some processor_origin) \<and>
   loadRaster (sample_files (Some raster_origin) (Some raster_corner)) ''orto2.tif''
     = Inr (Some processor_corner) \<and>
   getValidGeometry sample_GEOS processor_origin
     = Some (SamplePolygon [(0, 0), (2, 0), (2, 2), (0, 2), (0, 0)]) \<and>
   getValidGeometry sample_GEOS processor_corner
     = Some (SamplePolygon [(2, 2), (4, 2), (4, 4), (2, 4), (2, 2)]) \<and>
   GEOSIntersection sample_GEOS
     (SamplePolygon [(0, 0), (2, 0), (2, 2), (0, 2), (0, 0)])
     (SamplePolygon [(2, 2), (4, 2), (4, 4), (2, 4), (2, 2)]) = Some (SamplePoint (2, 2)) \<and>
   GEOSisEmpty sample_GEOS (SamplePoint (2, 2)) = 0 \<and>
   GEOSEnvelope sample_GEOS (SamplePoint (2, 2)) = Some (SamplePoint (2, 2)) \<and>
   GEOSGetExteriorRing sample_GEOS (SamplePoint (2, 2)) = None \<and>
   geometryToGeoJSON sample_fmt sample_GEOS (Some (SamplePoint (2, 2)))
     = dump sample_fmt 4 (featureCollection 0 0 100 100) \<and>
   dump sample_fmt 4 (featureCollection 0 0 100 100) \<noteq> dump sample_fmt 4 (featureCollection 2 2 2 2) \<and>
   main sample_fmt sample_GEOS (sample_files (Some raster_origin) (Some raster_corner))
     = Inr \<lparr>exitStatus = 0,
            outputFile = Some (dump sample_fmt 4 (featureCollection 0 0 100 100))\<rparr>"
  by code_simp

text \<open>
  C9. For every non-null intersection geometry whose envelope has no extractable exterior
  ring or coordinate sequence (or no envelope at all), the serializer emits a Feature whose
  rectangle uses the fixed default bounds \<open>minX = 0, minY = 0, maxX = 100, maxY = 100\<close>
  instead of the geometry's extent.
\<close>

theorem geometryToGeoJSON_default_bounds:
  assumes "GEOSEnvelope G geometry = None \<or>
     (\<exists>envelope. GEOSEnvelope G geometry = Some envelope \<and>
        (GEOSGetExteriorRing G envelope = None \<or>
         (\<exists>ring. GEOSGetExteriorRing G envelope = Some ring \<and> GEOSGeom_getCoordSeq G ring = None)))"
  shows "geometryToGeoJSON fmt G (Some geometry) = dump fmt 4 (featureCollection 0 0 100 100) \<and>
    (\<exists>feature polygon.
       json_member (featureCollection 0 0 100 100) ''features'' = Some (JArray [feature]) \<and>
       json_member feature ''geometry'' = Some polygon \<and>
       json_member polygon ''coordinates'' =
         Some (JArray [JArray [JArray [JNumber 0, JNumber 0], JArray [JNumber 100, JNumber 0],
               JArray [JNumber 100, JNumber 100], JArray [JNumber 0, JNumber 100],
               JArray [JNumber 0, JNumber 0]]]))"
proof
  show "geometryToGeoJSON fmt G (Some geometry) = dump fmt 4 (featureCollection 0 0 100 100)"
    by (simp add: geometryToGeoJSON_def envelopeBounds_default [OF assms])
  show "\<exists>feature polygon.
       json_member (featureCollection 0 0 100 100) ''features'' = Some (JArray [feature]) \<and>
       json_member feature ''geometry'' = Some polygon \<and>
       json_member polygon ''coordinates'' =
         Some (JArray [JArray [JArray [JNumber 0, JNumber 0], JArray [JNumber 100, JNumber 0],
               JArray [JNumber 100, JNumber 100], JArray [JNumber 0, JNumber 100],
               JArray [JNumber 0, JNumber 0]]])"
    using featureCollection_members [of 0 0 100 100] by blast
qed

theorem geometryToGeoJSON_default_bounds_witness:
  "GEOSEnvelope sample_GEOS (SamplePoint (2, 2)) = Some (SamplePoint (2, 2)) \<and>
   GEOSGetExteriorRing sample_GEOS (SamplePoint (2, 2)) = None \<and>
   geometryToGeoJSON sample_fmt sample_GEOS (Some (SamplePoint (2, 2)))
     = dump sample_fmt 4 (featureCollection 0 0 100 100)"
proof -
  have e: "GEOSEnvelope sample_GEOS (SamplePoint (2, 2)) = Some (SamplePoint (2, 2))"
    by (simp add: sample_GEOS_def)
  have r: "GEOSGetExteriorRing sample_GEOS (SamplePoint (2, 2)) = None"
    by (simp add: sample_GEOS_def)
  have "GEOSEnvelope sample_GEOS (SamplePoint (2, 2)) = None \<or>
     (\<exists>envelope. GEOSEnvelope sample_GEOS (SamplePoint (2, 2)) = Some envelope \<and>
        (GEOSGetExteriorRing sample_GEOS envelope = None \<or>
         (\<exists>ring. GEOSGetExteriorRing sample_GEOS envelope = Some ring \<and>
            GEOSGeom_getCoordSeq sample_GEOS ring = None)))"
    using e r by simp
  from geometryToGeoJSON_default_bounds [OF this, of sample_fmt] e r show ?thesis
    by simp
qed

subsection \<open>The document for a null or empty intersection\<close>

text \<open>
  C6, as the program has it. For every run in which both polygons exist but the
  intersection primitive returns a null or an empty geometry, the run is not aborted: it
  ends with exit status 0 and the written document is a FeatureCollection with an empty
  feature list, the JSON value of \<open>{"type":"FeatureCollection","features":[]}\<close>. Its text
  has the member \<open>features\<close> before the member \<open>type\<close>: modulo whitespace it is
  \<open>{"features":[],"type":"FeatureCollection"}\<close>.
\<close>

theorem main_empty_intersection_document:
  assumes "loadRaster GDALOpen ''orto1.tif'' = Inr (Some processor1)"
    and "loadRaster GDALOpen ''orto2.tif'' = Inr (Some processor2)"
    and "getValidGeometry G processor1 = Some geometry1"
    and "getValidGeometry G processor2 = Some geometry2"
    and "GEOSIntersection G geometry1 geometry2 = None \<or>
         (\<exists>intersection. GEOSIntersection G geometry1 geometry2 = Some intersection \<and>
            GEOSisEmpty G intersection \<noteq> 0)"
  shows \<open>main fmt G GDALOpen = Inr \<lparr>exitStatus = 0, outputFile = Some (dump fmt 4 emptyGeojson)\<rparr> \<and>
         json_member emptyGeojson ''type'' = Some (JString ''FeatureCollection'') \<and>
         json_member emptyGeojson ''features'' = Some (JArray []) \<and>
         json_keys emptyGeojson = [''features'', ''type''] \<and>
         dump fmt 4 emptyGeojson =
           join_lines
             [''{'',
              ''    "features": [],'',
              ''    "type": "FeatureCollection"'',
              ''}''] \<and>
         strip_whitespace (dump fmt 4 emptyGeojson) = ''{"features":[],"type":"FeatureCollection"}''\<close>
proof (intro conjI)
  show "main fmt G GDALOpen = Inr \<lparr>exitStatus = 0, outputFile = Some (dump fmt 4 emptyGeojson)\<rparr>"
    by (rule main_no_intersection [OF assms])
  show "json_member emptyGeojson ''type'' = Some (JString ''FeatureCollection'')"
    by (simp add: emptyGeojson_value)
  show "json_member emptyGeojson ''features'' = Some (JArray [])"
    by (simp add: emptyGeojson_value)
  show "json_keys emptyGeojson = [''features'', ''type'']"
    by (simp add: emptyGeojson_value)
qed (rule dump_emptyGeojson strip_dump_emptyGeojson)+

theorem main_empty_intersection_document_witness:
  \<open>loadRaster (sample_files (Some raster_origin) (Some raster_far)) ''orto1.tif''
     = Inr (Some processor_origin) \<and>
   loadRaster (sample_files (Some raster_origin) (Some raster_far)) ''orto2.tif''
     = Inr (Some processor_far) \<and>
   getValidGeometry sample_GEOS processor_origin
     = Some (SamplePolygon [(0, 0), (2, 0), (2, 2), (0, 2), (0, 0)]) \<and>
   getValidGeometry sample_GEOS processor_far
     = Some (SamplePolygon [(5, 5), (7, 5), (7, 7), (5, 7), (5, 5)]) \<and>
   GEOSIntersection sample_GEOS
     (SamplePolygon [(0, 0), (2, 0), (2, 2), (0, 2), (0, 0)])
     (SamplePolygon [(5, 5), (7, 5), (7, 7), (5, 7), (5, 5)]) = Some SampleEmpty \<and>
   GEOSisEmpty sample_GEOS SampleEmpty = 1 \<and>
   main sample_fmt sample_GEOS (sample_files (Some raster_origin) (Some raster_far))
     = Inr \<lparr>exitStatus = 0,
        outputFile = Some (join_lines
          [''{'',
           ''    "features": [],'',
           ''    "type": "FeatureCollection"'',
           ''}''])\<rparr>\<close>
proof -
  let ?files = "sample_files (Some raster_origin) (Some raster_far)"
  let ?g1 = "SamplePolygon [(0, 0), (2, 0), (2, 2), (0, 2), (0, 0)]"
  let ?g2 = "SamplePolygon [(5, 5), (7, 5), (7, 7), (5, 7), (5, 5)]"
  have l1: "loadRaster ?files ''orto1.tif'' = Inr (Some processor_origin)" by code_simp
  have l2: "loadRaster ?files ''orto2.tif'' = Inr (Some processor_far)" by code_simp
  have g1: "getValidGeometry sample_GEOS processor_origin = Some ?g1" by code_simp
  have g2: "getValidGeometry sample_GEOS processor_far = Some ?g2" by code_simp
  have i: "GEOSIntersection sample_GEOS ?g1 ?g2 = Some SampleEmpty" by code_simp
  have e: "GEOSisEmpty sample_GEOS SampleEmpty = 1" by (simp add: sample_GEOS_def)
  have "GEOSIntersection sample_GEOS ?g1 ?g2 = None \<or>
      (\<exists>intersection. GEOSIntersection sample_GEOS ?g1 ?g2 = Some intersection \<and>
         GEOSisEmpty sample_GEOS intersection \<noteq> 0)"
    using i e by simp
  from main_empty_intersection_document [OF l1 l2 g1 g2 this, of sample_fmt] l1 l2 g1 g2 i e
  show ?thesis by simp
qed

text \<open>
  The run on two rasters far apart: the document written is not, modulo whitespace, the
  text \<open>{"type":"FeatureCollection","features":[]}\<close>.
\<close>

theorem main_empty_intersection_counterexample:
  \<open>main sample_fmt sample_GEOS (sample_files (Some raster_origin) (Some raster_far))
     = Inr \<lparr>exitStatus = 0, outputFile = Some (dump sample_fmt 4 emptyGeojson)\<rparr> \<and>
   strip_whitespace (dump sample_fmt 4 emptyGeojson)
     = ''{"features":[],"type":"FeatureCollection"}'' \<and>
   strip_whitespace (dump sample_fmt 4 emptyGeojson)
     \<noteq> ''{"type":"FeatureCollection","features":[]}''\<close>
  by code_simp

subsection \<open>The form of the written documents\<close>

lemma main_documents:
  "main fmt G GDALOpen = Inl BufferOverrun \<or>
   (\<exists>r. main fmt G GDALOpen = Inr r \<and>
      (outputFile r = None \<or>
       outputFile r = Some (dump fmt 4 emptyGeojson) \<or>
       (\<exists>minX minY maxX maxY.
          outputFile r = Some (dump fmt 4 (featureCollection minX minY maxX maxY)))))"
proof -
  have g: "\<And>i. \<exists>minX minY maxX maxY.
      geometryToGeoJSON fmt G (Some i) = dump fmt 4 (featureCollection minX minY maxX maxY)"
  proof -
    fix i
    obtain a b c d where "envelopeBounds G i = (a, b, c, d)"
      by (cases "envelopeBounds G i") auto
    then have "geometryToGeoJSON fmt G (Some i) = dump fmt 4 (featureCollection a b c d)"
      by (simp add: geometryToGeoJSON_def)
    then show "\<exists>minX minY maxX maxY.
      geometryToGeoJSON fmt G (Some i) = dump fmt 4 (featureCollection minX minY maxX maxY)"
      by blast
  qed
  consider (failed1) "loadFailed (loadRaster GDALOpen ''orto1.tif'')"
    | (overrun1) "loadRaster GDALOpen ''orto1.tif'' = Inl BufferOverrun"
    | (loaded1) processor1 where "loadRaster GDALOpen ''orto1.tif'' = Inr (Some processor1)"
    using load_outcomes [of "loadRaster GDALOpen ''orto1.tif''"] by blast
  then show ?thesis
  proof cases
    case failed1
    then show ?thesis by (simp add: main_first_failed)
  next
    case overrun1
    then show ?thesis by (simp add: main_overrun)
  next
    case p1: loaded1
    consider (failed2) "loadFailed (loadRaster GDALOpen ''orto2.tif'')"
      | (overrun2) "loadRaster GDALOpen ''orto2.tif'' = Inl BufferOverrun"
      | (loaded2) processor2 where "loadRaster GDALOpen ''orto2.tif'' = Inr (Some processor2)"
      using load_outcomes [of "loadRaster GDALOpen ''orto2.tif''"] by blast
    then show ?thesis
    proof cases
      case failed2
      from main_second_failed [OF p1 failed2, of fmt G] show ?thesis by simp
    next
      case overrun2
      with p1 show ?thesis by (simp add: main_overrun)
    next
      case p2: loaded2
      show ?thesis
      proof (cases "getValidGeometry G processor1 = None \<or> getValidGeometry G processor2 = None")
        case True
        from main_no_geometry [OF p1 p2 True] show ?thesis by simp
      next
        case False
        then obtain geometry1 geometry2 where
          g1: "getValidGeometry G processor1 = Some geometry1" and
          g2: "getValidGeometry G processor2 = Some geometry2" by auto
        show ?thesis
        proof (cases "GEOSIntersection G geometry1 geometry2 = None \<or>
            (\<exists>intersection. GEOSIntersection G geometry1 geometry2 = Some intersection \<and>
               GEOSisEmpty G intersection \<noteq> 0)")
          case True
          from main_no_intersection [OF p1 p2 g1 g2 True] show ?thesis by simp
        next
          case False
          then obtain intersection where
            i: "GEOSIntersection G geometry1 geometry2 = Some intersection" and
            e: "GEOSisEmpty G intersection = 0" by auto
          from main_intersection [OF p1 p2 g1 g2 i e, of fmt] g [of intersection]
          show ?thesis by auto
        qed
      qed
    qed
  qed
qed

text \<open>
  C8, as the program has it. Every document a run writes (a run ends with an exit status,
  unless a read has overrun the mask vector) is the text \<open>dump(4)\<close> of one of two values, pretty-printed with 4-space indentation; the members of every object appear
  in ascending key order: \<open>features\<close> then \<open>type\<close> at the top level, \<open>geometry\<close>,
  \<open>properties\<close>, \<open>type\<close> in the feature, \<open>coordinates\<close>, \<open>type\<close> in its geometry; and the
  coordinate values are numbers, printed as numbers and not as strings.
\<close>

theorem written_documents_layout:
  \<open>(main fmt G GDALOpen = Inl BufferOverrun \<or>
    (\<exists>r. main fmt G GDALOpen = Inr r \<and>
       (outputFile r = None \<or>
        outputFile r = Some (dump fmt 4 emptyGeojson) \<or>
        (\<exists>minX minY maxX maxY.
           outputFile r = Some (dump fmt 4 (featureCollection minX minY maxX maxY)))))) \<and>
   json_keys emptyGeojson = [''features'', ''type''] \<and>
   (\<exists>feature polygon.
      json_member (featureCollection minX minY maxX maxY) ''features'' = Some (JArray [feature]) \<and>
      json_member feature ''geometry'' = Some polygon \<and>
      json_keys (featureCollection minX minY maxX maxY) = [''features'', ''type''] \<and>
      json_keys feature = [''geometry'', ''properties'', ''type''] \<and>
      json_keys polygon = [''coordinates'', ''type'']) \<and>
   dump fmt 4 emptyGeojson =
     join_lines
       [''{'',
        ''    "features": [],'',
        ''    "type": "FeatureCollection"'',
        ''}''] \<and>
   dump fmt 4 (featureCollection minX minY maxX maxY) =
     join_lines
       [''{'',
        ''    "features": ['',
        ''        {'',
        ''            "geometry": {'',
        ''                "coordinates": ['',
        ''                    ['',
        ''                        ['',
        ''                            '' @ fmt minX @ '','',
        ''                            '' @ fmt minY,
        ''                        ],'',
        ''                        ['',
        ''                            '' @ fmt maxX @ '','',
        ''                            '' @ fmt minY,
        ''                        ],'',
        ''                        ['',
        ''                            '' @ fmt maxX @ '','',
        ''                            '' @ fmt maxY,
        ''                        ],'',
        ''                        ['',
        ''                            '' @ fmt minX @ '','',
        ''                            '' @ fmt maxY,
        ''                        ],'',
        ''                        ['',
        ''                            '' @ fmt minX @ '','',
        ''                            '' @ fmt minY,
        ''                        ]'',
        ''                    ]'',
        ''                ],'',
        ''                "type": "Polygon"'',
        ''            },'',
        ''            "properties": {'',
        ''                "name": "Intersection Area"'',
        ''            },'',
        ''            "type": "Feature"'',
        ''        }'',
        ''    ],'',
        ''    "type": "FeatureCollection"'',
        ''}'']\<close>
proof (intro conjI)
  show "main fmt G GDALOpen = Inl BufferOverrun \<or>
    (\<exists>r. main fmt G GDALOpen = Inr r \<and>
       (outputFile r = None \<or>
        outputFile r = Some (dump fmt 4 emptyGeojson) \<or>
        (\<exists>minX minY maxX maxY.
           outputFile r = Some (dump fmt 4 (featureCollection minX minY maxX maxY)))))"
    by (rule main_documents)
  show "json_keys emptyGeojson = [''features'', ''type'']"
    by (simp add: emptyGeojson_value)
  show "\<exists>feature polygon.
      json_member (featureCollection minX minY maxX maxY) ''features'' = Some (JArray [feature]) \<and>
      json_member feature ''geometry'' = Some polygon \<and>
      json_keys (featureCollection minX minY maxX maxY) = [''features'', ''type''] \<and>
      json_keys feature = [''geometry'', ''properties'', ''type''] \<and>
      json_keys polygon = [''coordinates'', ''type'']"
    by (rule featureCollection_keys)
qed (rule dump_emptyGeojson dump_featureCollection)+

text \<open>
  In the document of the run on two overlapping rasters, and in the document for an empty
  intersection, the first key is \<open>features\<close>, not \<open>type\<close>.
\<close>

theorem written_documents_key_order_counterexample:
  \<open>main sample_fmt sample_GEOS (sample_files (Some raster_origin) (Some raster_shifted))
     = Inr \<lparr>exitStatus = 0, outputFile = Some (dump sample_fmt 4 (featureCollection 1 1 2 2))\<rparr> \<and>
   json_keys (featureCollection 1 1 2 2) = [''features'', ''type''] \<and>
   json_keys (featureCollection 1 1 2 2) \<noteq> [''type'', ''features''] \<and>
   json_keys emptyGeojson \<noteq> [''type'', ''features''] \<and>
   take 16 (dump sample_fmt 4 (featureCollection 1 1 2 2)) = ''{'' @ [CHR 0x0A] @ ''    "features"''\<close>
  by code_simp

end
